theory Spec2Isabelle
  imports Complex_Main
begin

section \<open>Numbers\<close>

text \<open>
  The numbers of the program are IEEE doubles.  In the model a number is a finite value,
  an infinity or \<open>NaN\<close>.  Finite values are exact reals: the arithmetic below has no
  rounding, no overflow and no underflow, and a zero has no sign, so that a non-zero
  number divided by zero takes the sign of the dividend.  Apart from that the operations
  follow the language definition.  The transform of the spectrogram analysis, whose
  values depend on rounding, does not use this arithmetic: it takes its operations as a
  parameter, the record \<open>fpenv\<close> below.
\<close>

datatype jsnum = Num real | PosInf | NegInf | NaN

instantiation jsnum :: "{uminus, plus, minus, times, inverse, ord}"
begin

fun uminus_jsnum :: "jsnum \<Rightarrow> jsnum" where
  "- Num x = Num (- x)"
| "- PosInf = NegInf"
| "- NegInf = PosInf"
| "- NaN = NaN"

fun plus_jsnum :: "jsnum \<Rightarrow> jsnum \<Rightarrow> jsnum" where
  "Num x + Num y = Num (x + y)"
| "NaN + b = NaN"
| "a + NaN = NaN"
| "PosInf + NegInf = NaN"
| "NegInf + PosInf = NaN"
| "PosInf + b = PosInf"
| "a + PosInf = PosInf"
| "NegInf + b = NegInf"
| "a + NegInf = NegInf"

definition minus_jsnum :: "jsnum \<Rightarrow> jsnum \<Rightarrow> jsnum" where
  "(a::jsnum) - b = a + (- b)"

fun times_jsnum :: "jsnum \<Rightarrow> jsnum \<Rightarrow> jsnum" where
  "Num x * Num y = Num (x * y)"
| "NaN * b = NaN"
| "a * NaN = NaN"
| "PosInf * Num y = (if 0 < y then PosInf else if y < 0 then NegInf else NaN)"
| "NegInf * Num y = (if 0 < y then NegInf else if y < 0 then PosInf else NaN)"
| "Num x * PosInf = (if 0 < x then PosInf else if x < 0 then NegInf else NaN)"
| "Num x * NegInf = (if 0 < x then NegInf else if x < 0 then PosInf else NaN)"
| "PosInf * PosInf = PosInf"
| "PosInf * NegInf = NegInf"
| "NegInf * PosInf = NegInf"
| "NegInf * NegInf = PosInf"

fun divide_jsnum :: "jsnum \<Rightarrow> jsnum \<Rightarrow> jsnum" where
  "divide_jsnum (Num x) (Num y) =
     (if y = 0 then (if 0 < x then PosInf else if x < 0 then NegInf else NaN)
      else Num (x / y))"
| "divide_jsnum NaN b = NaN"
| "divide_jsnum a NaN = NaN"
| "divide_jsnum (Num x) b = Num 0"
| "divide_jsnum PosInf (Num y) = (if 0 \<le> y then PosInf else NegInf)"
| "divide_jsnum NegInf (Num y) = (if 0 \<le> y then NegInf else PosInf)"
| "divide_jsnum a b = NaN"

fun inverse_jsnum :: "jsnum \<Rightarrow> jsnum" where
  "inverse_jsnum (Num y) = (if y = 0 then PosInf else Num (1 / y))"
| "inverse_jsnum NaN = NaN"
| "inverse_jsnum a = Num 0"

fun less_jsnum :: "jsnum \<Rightarrow> jsnum \<Rightarrow> bool" where
  "Num x < Num y \<longleftrightarrow> x < y"
| "NaN < b \<longleftrightarrow> False"
| "a < NaN \<longleftrightarrow> False"
| "a < NegInf \<longleftrightarrow> False"
| "PosInf < b \<longleftrightarrow> False"
| "NegInf < b \<longleftrightarrow> True"
| "a < PosInf \<longleftrightarrow> True"

fun less_eq_jsnum :: "jsnum \<Rightarrow> jsnum \<Rightarrow> bool" where
  "Num x \<le> Num y \<longleftrightarrow> x \<le> y"
| "NaN \<le> b \<longleftrightarrow> False"
| "a \<le> NaN \<longleftrightarrow> False"
| "NegInf \<le> b \<longleftrightarrow> True"
| "a \<le> PosInf \<longleftrightarrow> True"
| "a \<le> NegInf \<longleftrightarrow> False"
| "PosInf \<le> b \<longleftrightarrow> False"

instance ..

end

text \<open>The functions of \<open>Math\<close> the program calls.\<close>

fun Math_floor :: "jsnum \<Rightarrow> jsnum" where
  "Math_floor (Num x) = Num (of_int \<lfloor>x\<rfloor>)"
| "Math_floor a = a"

fun Math_max :: "jsnum \<Rightarrow> jsnum \<Rightarrow> jsnum" where
  "Math_max (Num x) (Num y) = Num (max x y)"
| "Math_max NaN b = NaN"
| "Math_max a NaN = NaN"
| "Math_max PosInf b = PosInf"
| "Math_max a PosInf = PosInf"
| "Math_max NegInf b = b"
| "Math_max a NegInf = a"


fun Math_sqrt :: "jsnum \<Rightarrow> jsnum" where
  "Math_sqrt (Num x) = (if 0 \<le> x then Num (sqrt x) else NaN)"
| "Math_sqrt PosInf = PosInf"
| "Math_sqrt a = NaN"

fun Math_cos :: "jsnum \<Rightarrow> jsnum" where
  "Math_cos (Num x) = Num (cos x)"
| "Math_cos a = NaN"

fun Math_sin :: "jsnum \<Rightarrow> jsnum" where
  "Math_sin (Num x) = Num (sin x)"
| "Math_sin a = NaN"

text \<open>The logarithm to the base \<open>b\<close>: \<open>Math.log\<close>, \<open>Math.log2\<close> and \<open>Math.log10\<close>.\<close>

fun js_log :: "real \<Rightarrow> jsnum \<Rightarrow> jsnum" where
  "js_log b (Num x) = (if 0 < x then Num (log b x) else if x = 0 then NegInf else NaN)"
| "js_log b PosInf = PosInf"
| "js_log b a = NaN"

definition Math_log :: "jsnum \<Rightarrow> jsnum" where
  "Math_log = js_log (exp 1)"

definition Math_log2 :: "jsnum \<Rightarrow> jsnum" where
  "Math_log2 = js_log 2"

definition Math_log10 :: "jsnum \<Rightarrow> jsnum" where
  "Math_log10 = js_log 10"

text \<open>
  \<open>Math.pow\<close>: the exponent cases come first, as in the language definition; a negative
  finite base has a value for an integer exponent only.
\<close>

fun Math_pow :: "jsnum \<Rightarrow> jsnum \<Rightarrow> jsnum" where
  "Math_pow b NaN = NaN"
| "Math_pow b (Num e) =
     (if e = 0 then Num 1
      else (case b of
              NaN \<Rightarrow> NaN
            | PosInf \<Rightarrow> (if 0 < e then PosInf else Num 0)
            | NegInf \<Rightarrow>
                (if 0 < e then (if of_int \<lfloor>e\<rfloor> = e \<and> odd \<lfloor>e\<rfloor> then NegInf else PosInf)
                 else Num 0)
            | Num x \<Rightarrow>
                (if 0 < x then Num (x powr e)
                 else if x = 0 then (if 0 < e then Num 0 else PosInf)
                 else if of_int \<lfloor>e\<rfloor> = e then Num (x powi \<lfloor>e\<rfloor>)
                 else NaN)))"
| "Math_pow b PosInf =
     (case b of
        NaN \<Rightarrow> NaN
      | Num x \<Rightarrow> (if 1 < \<bar>x\<bar> then PosInf else if \<bar>x\<bar> = 1 then NaN else Num 0)
      | _ \<Rightarrow> PosInf)"
| "Math_pow b NegInf =
     (case b of
        NaN \<Rightarrow> NaN
      | Num x \<Rightarrow> (if 1 < \<bar>x\<bar> then Num 0 else if \<bar>x\<bar> = 1 then NaN else PosInf)
      | _ \<Rightarrow> Num 0)"

section \<open>Annotation model: labels and label categories\<close>

text \<open>
  The times of a label are finite numbers and are exact reals here; the one place where
  a pointer time can be \<open>NaN\<close> is written out in \<open>getPointerTime\<close> below.

  The interface \<open>Label\<close> of the types module.  The fields \<open>id\<close>, \<open>end\<close> and \<open>text\<close>
  carry a prime because the plain names are taken in Isabelle.  The optional fields
  \<open>color\<close> and \<open>layerIndex\<close> are options.
\<close>

record Label =
  id' :: string
  configId :: string
  start :: real
  end' :: real
  text' :: string
  color :: "string option"
  layerIndex :: "nat option"

text \<open>
  The interface \<open>LabelConfig\<close>.  Its \<open>color\<close> is read from \<open>HOTKEY_COLORS\<close> by index,
  which is \<open>undefined\<close> past the end of that table: hence an option here as well.
\<close>

record LabelConfig =
  key :: string
  ctext :: string
  ccolor :: "string option"

subsection \<open>calculateLabelLayers\<close>

text \<open>
  The inner \<open>for\<close> loop of \<open>calculateLabelLayers\<close>: scan the lanes from index \<open>i\<close> and
  stop at the first one whose last end time plus the 0.1 buffer is at most the label's
  start.  \<open>None\<close> is the loop running out with \<open>placed = false\<close>.
\<close>

fun findLayer :: "real list \<Rightarrow> real \<Rightarrow> nat \<Rightarrow> nat option" where
  "findLayer [] s i = None"
| "findLayer (e # es) s i = (if e + 0.1 \<le> s then Some i else findLayer es s (Suc i))"

text \<open>
  The body of the \<open>forEach\<close>: the state is the pair of \<open>processed\<close> and \<open>layers\<close>.
  Every element of the input array is taken to be an object of its own, so the assignment
  to \<open>label.layerIndex\<close> is an update of that one record.
\<close>

definition placeLabel :: "Label list \<times> real list \<Rightarrow> Label \<Rightarrow> Label list \<times> real list" where
  "placeLabel st label =
     (case st of (processed, layers) \<Rightarrow>
        (case findLayer layers (start label) 0 of
           Some i \<Rightarrow> (processed @ [label\<lparr>layerIndex := Some i\<rparr>], layers[i := end' label])
         | None \<Rightarrow> (processed @ [label\<lparr>layerIndex := Some (length layers)\<rparr>],
                     layers @ [end' label])))"

text \<open>
  \<open>[...labels].sort((a, b) => a.start - b.start)\<close> is a stable ascending sort on
  \<open>start\<close>; \<open>sort_key\<close> is the stable insertion sort of the library.
\<close>

definition calculateLabelLayers :: "Label list \<Rightarrow> Label list" where
  "calculateLabelLayers ls = fst (foldl placeLabel ([], []) (sort_key start ls))"

text \<open>
  The layering rule in the words of the specification: the first lane whose last end
  time plus the 0.1 s gap is at most the label's start, if there is one.
\<close>

definition first_free_lane :: "real list \<Rightarrow> real \<Rightarrow> nat option" where
  "first_free_lane layers s =
     (if \<exists>i < length layers. layers ! i + 0.1 \<le> s
      then Some (LEAST i. i < length layers \<and> layers ! i + 0.1 \<le> s) else None)"

text \<open>
  The invariant of the \<open>forEach\<close> loop: every processed label has a lane that exists,
  no label of a lane ends after the end time recorded for the lane, and of two labels of
  one lane the one processed later starts at least 0.1 after the other ends.
\<close>

definition lanes_ok :: "Label list \<times> real list \<Rightarrow> bool" where
  "lanes_ok st \<longleftrightarrow>
     (\<forall>p \<in> set (fst st). \<forall>k. layerIndex p = Some k \<longrightarrow>
          k < length (snd st) \<and> end' p \<le> snd st ! k) \<and>
     (\<forall>p \<in> set (fst st). layerIndex p \<noteq> None) \<and>
     (\<forall>b < length (fst st). \<forall>a < b. layerIndex (fst st ! a) = layerIndex (fst st ! b)
          \<longrightarrow> end' (fst st ! a) + 0.1 \<le> start (fst st ! b))"


text \<open>
  The layering in the words of the specification, to be compared with
  \<open>calculateLabelLayers\<close>: given the lane end times so far, each label in turn is
  assigned to the first lane whose last end time plus the gap is at most its start and
  that lane's end time becomes the label's end; else it opens a new lane.
\<close>

fun greedy_layers :: "real list \<Rightarrow> Label list \<Rightarrow> Label list" where
  "greedy_layers lane_ends [] = []"
| "greedy_layers lane_ends (l # ls) =
     (case first_free_lane lane_ends (start l) of
        Some i \<Rightarrow> l\<lparr>layerIndex := Some i\<rparr> # greedy_layers (lane_ends[i := end' l]) ls
      | None \<Rightarrow> l\<lparr>layerIndex := Some (length lane_ends)\<rparr>
                 # greedy_layers (lane_ends @ [end' l]) ls)"
section \<open>Application state and the interaction handlers\<close>

subsection \<open>Constants and number formatting\<close>

definition HOTKEY_COLORS :: "string list" where
  "HOTKEY_COLORS =
     [''#ffffff'', ''#ef4444'', ''#f97316'', ''#eab308'', ''#22c55e'',
      ''#06b6d4'', ''#3b82f6'', ''#a855f7'', ''#ec4899'', ''#64748b'']"

text \<open>\<open>HOTKEY_COLORS[i]\<close>: \<open>undefined\<close> past the end of the table.\<close>

definition hotkeyColor :: "nat \<Rightarrow> string option" where
  "hotkeyColor i = (if i < length HOTKEY_COLORS then Some (HOTKEY_COLORS ! i) else None)"

definition DEFAULT_LABEL_CONFIGS :: "LabelConfig list" where
  "DEFAULT_LABEL_CONFIGS = [\<lparr>key = ''0'', ctext = ''Custom Label'', ccolor = hotkeyColor 0\<rparr>]"

text \<open>
  The decimal digits of a non-negative integer, as \<open>toString\<close> prints an array index
  and as \<open>toFixed\<close> prints its integer \<open>n\<close>.
\<close>

definition digitChar :: "nat \<Rightarrow> char" where
  "digitChar d = ''0123456789'' ! d"

function natToString :: "nat \<Rightarrow> string" where
  "natToString n =
     (if n < 10 then [digitChar n] else natToString (n div 10) @ [digitChar (n mod 10)])"
  by pat_completeness auto
termination
  by (relation "measure id") auto

declare natToString.simps [simp del]

subsection \<open>State\<close>

datatype Side = SideStart | SideEnd

record CreatingLabel =
  cl_start :: real
  cl_current :: real

record ResizingLabel =
  rl_id :: string
  rl_side :: Side
  rl_originalTime :: real

record DraggedLabel =
  dl_id :: string
  dl_startOffset :: real

record DragStart =
  ds_x :: real
  ds_scroll :: real

text \<open>
  The state the handlers read and write: the \<open>useState\<close> cells of the application
  component (\<open>labels\<close>, \<open>selectedLabelId\<close>, \<open>labelConfigs\<close>, \<open>activeLabelIndex\<close>) and of
  the spectrogram component (the rest).  \<open>onLabelsChange\<close> is \<open>setLabels\<close> and
  \<open>onSelectLabel\<close> is \<open>setSelectedLabelId\<close>.
\<close>

record AppState =
  labels :: "Label list"
  selectedLabelId :: "string option"
  labelConfigs :: "LabelConfig list"
  activeLabelIndex :: nat
  scrollLeft :: real
  dragStart :: "DragStart option"
  creatingLabel :: "CreatingLabel option"
  resizingLabel :: "ResizingLabel option"
  draggedLabel :: "DraggedLabel option"

text \<open>
  What the spectrogram component reads from outside: the media duration, the pixels per
  second of the current zoom, and the left edge of the container's bounding rectangle
  (\<open>None\<close> when \<open>containerRef.current\<close> is null).
\<close>

record Props =
  duration :: real
  pixelsPerSecond :: real
  containerLeft :: "real option"

datatype js_error = TypeError | RangeError

subsection \<open>Pointer handlers of the spectrogram component\<close>

text \<open>
  \<open>getPointerTime\<close>.  The division is written out for a zero divisor: the quotient is
  then an infinity, which \<open>Math.min\<close> and \<open>Math.max\<close> clamp, or \<open>NaN\<close>, which they
  return; \<open>None\<close> is \<open>NaN\<close>.
\<close>

definition getPointerTime :: "Props \<Rightarrow> real \<Rightarrow> real \<Rightarrow> real option" where
  "getPointerTime p scroll clientX =
     (case containerLeft p of
        None \<Rightarrow> Some 0
      | Some left \<Rightarrow>
          (let x = clientX - left; absoluteX = x + scroll in
           if pixelsPerSecond p = 0 then
             (if absoluteX > 0 then Some (max 0 (duration p))
              else if absoluteX < 0 then Some 0
              else None)
           else Some (max 0 (min (absoluteX / pixelsPerSecond p) (duration p)))))"

text \<open>The two \<open>labels.map\<close> callbacks of \<open>handleMouseMove\<close>.\<close>

definition resizeLabel :: "ResizingLabel \<Rightarrow> real \<Rightarrow> Label \<Rightarrow> Label" where
  "resizeLabel r t l =
     (if id' l = rl_id r then
        (if rl_side r = SideStart then l\<lparr>start := min t (end' l - 0.05)\<rparr>
         else l\<lparr>end' := max t (start l + 0.05)\<rparr>)
      else l)"

definition dragLabel :: "DraggedLabel \<Rightarrow> real \<Rightarrow> Label \<Rightarrow> Label" where
  "dragLabel d t l =
     (if id' l = dl_id d then
        (let duration = end' l - start l;
             newStart = max 0 (t - dl_startOffset d)
         in l\<lparr>start := newStart, end' := newStart + duration\<rparr>)
      else l)"

text \<open>
  \<open>handleMouseMove\<close>.  The result is \<open>None\<close> when the pointer time is \<open>NaN\<close>; the
  model does not follow the program there.
\<close>

definition handleMouseMove :: "Props \<Rightarrow> real \<Rightarrow> AppState \<Rightarrow> AppState option" where
  "handleMouseMove p clientX st =
     (case dragStart st of
        Some ds \<Rightarrow> Some (st\<lparr>scrollLeft := max 0 (ds_scroll ds + (ds_x ds - clientX))\<rparr>)
      | None \<Rightarrow>
          (case getPointerTime p (scrollLeft st) clientX of
             None \<Rightarrow> None
           | Some t \<Rightarrow>
               (case creatingLabel st of
                  Some c \<Rightarrow> Some (st\<lparr>creatingLabel := Some (c\<lparr>cl_current := t\<rparr>)\<rparr>)
                | None \<Rightarrow>
                    (case resizingLabel st of
                       Some r \<Rightarrow> Some (st\<lparr>labels := map (resizeLabel r t) (labels st)\<rparr>)
                     | None \<Rightarrow>
                         (case draggedLabel st of
                            Some d \<Rightarrow> Some (st\<lparr>labels := map (dragLabel d t) (labels st)\<rparr>)
                          | None \<Rightarrow> Some st)))))"

text \<open>
  \<open>handleMouseUp\<close>.  \<open>newId\<close> is the string \<open>Math.random\<close> yields for the label's id and
  \<open>activeLabelConfig\<close> the property of that name.
\<close>

definition handleMouseUp :: "string \<Rightarrow> LabelConfig \<Rightarrow> AppState \<Rightarrow> AppState" where
  "handleMouseUp newId activeLabelConfig st =
     (let st1 = (if dragStart st \<noteq> None then st\<lparr>dragStart := None\<rparr> else st);
          st2 =
            (case creatingLabel st1 of
               None \<Rightarrow> st1
             | Some c \<Rightarrow>
                 (let s = min (cl_start c) (cl_current c);
                      e = max (cl_start c) (cl_current c);
                      st' =
                        (if e - s > 0.05 then
                           (let isActiveDefault = (key activeLabelConfig = ''0'');
                                newLabel =
                                  \<lparr>id' = newId, configId = key activeLabelConfig,
                                   start = s, end' = e,
                                   text' = (if isActiveDefault then [] else ctext activeLabelConfig),
                                   color = ccolor activeLabelConfig, layerIndex = None\<rparr>
                            in st1\<lparr>labels := labels st1 @ [newLabel],
                                   selectedLabelId := Some newId\<rparr>)
                         else st1)
                  in st'\<lparr>creatingLabel := None\<rparr>))
      in st2\<lparr>resizingLabel := None, draggedLabel := None\<rparr>)"

subsection \<open>Deleting a category\<close>

text \<open>
  \<open>handleDeleteCategory\<close> of the application component.  \<open>choice\<close> is the answer of the
  \<open>confirm\<close> dialog, asked only when a label uses the category: \<open>True\<close> converts the
  labels, \<open>False\<close> deletes them.  Reading \<open>config.key\<close> of a missing array element throws.
  The debug log is not part of the state modelled.
\<close>

definition convertToCustom :: "string \<Rightarrow> Label \<Rightarrow> Label" where
  "convertToCustom k l =
     (if configId l = k then l\<lparr>configId := ''0'', color := Some ''#ffffff''\<rparr> else l)"

definition reindexConfigs :: "LabelConfig list \<Rightarrow> LabelConfig list" where
  "reindexConfigs cs =
     map (\<lambda>(c, i). c\<lparr>key := natToString i, ccolor := hotkeyColor i\<rparr>) (zip cs [0 ..< length cs])"

definition handleDeleteCategory :: "nat \<Rightarrow> bool \<Rightarrow> AppState \<Rightarrow> js_error + AppState" where
  "handleDeleteCategory idx choice st =
     (if idx = 0 then Inr st
      else if length (labelConfigs st) \<le> idx then Inl TypeError
      else
        (let config = labelConfigs st ! idx;
             linkedLabels = filter (\<lambda>l. configId l = key config) (labels st);
             st1 =
               (if length linkedLabels > 0 then
                  (if choice then st\<lparr>labels := map (convertToCustom (key config)) (labels st)\<rparr>
                   else st\<lparr>labels := filter (\<lambda>l. configId l \<noteq> key config) (labels st)\<rparr>)
                else st);
             newConfigs = map fst (filter (\<lambda>(c, i). i \<noteq> idx)
                                     (zip (labelConfigs st) [0 ..< length (labelConfigs st)]));
             reindexed = reindexConfigs newConfigs
         in Inr (st1\<lparr>labelConfigs := reindexed, activeLabelIndex := 0\<rparr>)))"

text \<open>
  \<open>handleAddLabelConfig\<close> gives a new category the key of its index, and the deletion
  above re-keys by index: the keys of the category list are the decimal indices.
\<close>

definition keys_indexed :: "LabelConfig list \<Rightarrow> bool" where
  "keys_indexed cs \<longleftrightarrow> map key cs = map natToString [0 ..< length cs]"

subsection \<open>Export in the tab-delimited format\<close>

text \<open>
  \<open>Number.prototype.toFixed\<close> with \<open>f\<close> fraction digits on a finite number, after the
  language definition: the sign, then for a magnitude below \<open>10^21\<close> the integer \<open>n\<close>
  nearest to \<open>x * 10^f\<close> (the larger one of two), printed in decimal, padded with zeros
  to \<open>f + 1\<close> digits, with the point before the last \<open>f\<close> digits.  At \<open>10^21\<close> and above
  the result is the number's \<open>toString\<close>, which is the parameter \<open>numberToString\<close>.
\<close>

definition toFixed :: "(real \<Rightarrow> string) \<Rightarrow> nat \<Rightarrow> real \<Rightarrow> string" where
  "toFixed numberToString f x0 =
     (let s = (if x0 < 0 then ''-'' else '''');
          x = (if x0 < 0 then - x0 else x0)
      in if x \<ge> 10 ^ 21 then s @ numberToString x
         else
           (let n = nat \<lfloor>x * 10 ^ f + 1 / 2\<rfloor>;
                m = natToString n;
                m' = (if f \<noteq> 0 then
                        (let m1 = (if length m \<le> f then replicate (f + 1 - length m) CHR ''0'' @ m
                                   else m);
                             k = length m1
                         in take (k - f) m1 @ ''.'' @ drop (k - f) m1)
                      else m)
            in s @ m'))"

text \<open>
  \<open>exportToAudacity\<close>: the \<open>forEach\<close> appends one line per label to \<open>txtContent\<close>.  The
  result is the content handed to \<open>saveFile\<close>; the file name and the saving itself are
  not modelled.
\<close>

definition audacityLine :: "(real \<Rightarrow> string) \<Rightarrow> Label \<Rightarrow> string" where
  "audacityLine numberToString l =
     toFixed numberToString 6 (start l) @ [CHR 0x09] @
     toFixed numberToString 6 (end' l) @ [CHR 0x09] @ text' l @ [CHR 0x0A]"

definition exportToAudacity :: "(real \<Rightarrow> string) \<Rightarrow> Label list \<Rightarrow> string" where
  "exportToAudacity numberToString ls =
     foldl (\<lambda>txtContent l. txtContent @ audacityLine numberToString l) [] ls"

subsection \<open>Range predicates for labels\<close>

text \<open>
  The invariant the specification states for a stored label, and the stronger form that
  the creation threshold and the resize handles keep: at least 0.05 between the edges.
\<close>

definition label_in_range :: "real \<Rightarrow> Label \<Rightarrow> bool" where
  "label_in_range d l \<longleftrightarrow> 0 \<le> start l \<and> start l < end' l \<and> end' l \<le> d"

definition label_min_length :: "real \<Rightarrow> Label \<Rightarrow> bool" where
  "label_min_length d l \<longleftrightarrow> 0 \<le> start l \<and> start l + 0.05 \<le> end' l \<and> end' l \<le> d"

section \<open>Frequency scales\<close>

datatype FrequencyScale = Linear | Log | Mel

text \<open>The mel helpers, which the renderer and the spectrogram component both define.\<close>

definition toMel :: "jsnum \<Rightarrow> jsnum" where
  "toMel f = Num 2595 * Math_log10 (Num 1 + f / Num 700)"

definition fromMel :: "jsnum \<Rightarrow> jsnum" where
  "fromMel m = Num 700 * (Math_pow (Num 10) (m / Num 2595) - Num 1)"

text \<open>
  The frequency the renderer \<open>drawSpectrogramChunk\<close> assigns to the pixel row \<open>y\<close> of a
  canvas of height \<open>canvasHeight\<close>: the value of \<open>targetFreq\<close> in its first loop.
\<close>

definition targetFreq :: "FrequencyScale \<Rightarrow> jsnum \<Rightarrow> jsnum \<Rightarrow> jsnum \<Rightarrow> jsnum \<Rightarrow> jsnum" where
  "targetFreq frequencyScale minFreq maxFreq canvasHeight y =
     (let safeMinFreq = Math_max minFreq (Num 1);
          normY = Num 1 - y / canvasHeight
      in case frequencyScale of
           Linear \<Rightarrow> minFreq + normY * (maxFreq - minFreq)
         | Log \<Rightarrow> safeMinFreq * Math_pow (maxFreq / safeMinFreq) normY
         | Mel \<Rightarrow>
             (let minM = toMel minFreq;
                  maxM = toMel maxFreq;
                  targetM = minM + normY * (maxM - minM)
              in fromMel targetM))"

text \<open>
  The row \<open>renderTick\<close> of the spectrogram component computes for the axis tick of the
  frequency \<open>freq\<close>: the value of its \<open>y\<close> before the test whether to draw.
\<close>

definition renderTick_y :: "FrequencyScale \<Rightarrow> jsnum \<Rightarrow> jsnum \<Rightarrow> jsnum \<Rightarrow> jsnum \<Rightarrow> jsnum" where
  "renderTick_y frequencyScale minFreq maxFreq height freq =
     (case frequencyScale of
        Linear \<Rightarrow>
          (let pct = (freq - minFreq) / (maxFreq - minFreq)
           in height - pct * height)
      | Log \<Rightarrow>
          (let minSafe = Math_max minFreq (Num 1);
               pct = Math_log (freq / minSafe) / Math_log (maxFreq / minSafe)
           in height - pct * height)
      | Mel \<Rightarrow>
          (let minM = toMel minFreq;
               maxM = toMel maxFreq;
               m = toMel freq;
               pct = (m - minM) / (maxM - minM)
           in height - pct * height))"

section \<open>The spectrogram analysis\<close>

subsection \<open>Integer conversions and typed arrays\<close>

text \<open>
  The conversion of a finite number to an integer truncates towards zero.  \<open>ToInt32\<close>
  wraps the integer into 32 bits, signed; a shift count is the low five bits of its
  operand; a store into a \<open>Uint16Array\<close> or a \<open>Uint8Array\<close> wraps into 16 or 8 bits.
  \<open>NaN\<close> and the infinities convert to 0.
\<close>

definition trunc :: "real \<Rightarrow> int" where
  "trunc r = (if 0 \<le> r then \<lfloor>r\<rfloor> else \<lceil>r\<rceil>)"

fun ToInt32 :: "jsnum \<Rightarrow> int" where
  "ToInt32 (Num r) = signed_take_bit 31 (trunc r)"
| "ToInt32 a = 0"

fun shiftCount :: "jsnum \<Rightarrow> nat" where
  "shiftCount (Num r) = nat (trunc r mod 32)"
| "shiftCount a = 0"

definition js_shl :: "jsnum \<Rightarrow> jsnum \<Rightarrow> int" where
  "js_shl a b = signed_take_bit 31 (push_bit (shiftCount b) (ToInt32 a))"

definition js_sar :: "jsnum \<Rightarrow> jsnum \<Rightarrow> int" where
  "js_sar a b = drop_bit (shiftCount b) (ToInt32 a)"

definition ToUint16 :: "int \<Rightarrow> nat" where
  "ToUint16 v = nat (v mod 65536)"

fun ToUint8 :: "jsnum \<Rightarrow> nat" where
  "ToUint8 (Num r) = nat (trunc r mod 256)"
| "ToUint8 a = 0"

text \<open>
  A typed array is the list of its elements.  An index is a number: an element exists at
  the non-negative integers below the length.  A read anywhere else is \<open>undefined\<close>,
  which is \<open>NaN\<close> in the arithmetic that every such read of the program feeds, and a
  write anywhere else does nothing.
\<close>

fun validIndex :: "'a list \<Rightarrow> jsnum \<Rightarrow> bool" where
  "validIndex a (Num r) \<longleftrightarrow> 0 \<le> r \<and> of_int \<lfloor>r\<rfloor> = r \<and> nat \<lfloor>r\<rfloor> < length a"
| "validIndex a idx \<longleftrightarrow> False"

fun indexOf :: "jsnum \<Rightarrow> nat" where
  "indexOf (Num r) = nat \<lfloor>r\<rfloor>"
| "indexOf idx = 0"

definition arrayGet :: "jsnum list \<Rightarrow> jsnum \<Rightarrow> jsnum" where
  "arrayGet a idx = (if validIndex a idx then a ! indexOf idx else NaN)"

definition arraySet :: "'a list \<Rightarrow> jsnum \<Rightarrow> 'a \<Rightarrow> 'a list" where
  "arraySet a idx v = (if validIndex a idx then a[indexOf idx := v] else a)"

text \<open>
  \<open>subarray(begin, end)\<close> of a typed array, for integer arguments: a negative argument
  counts from the end, and both are clamped to the array.
\<close>

definition subarray :: "'a list \<Rightarrow> int \<Rightarrow> int \<Rightarrow> 'a list" where
  "subarray a b e =
     (let len = int (length a);
          beginIndex = (if b < 0 then max (len + b) 0 else min b len);
          endIndex = (if e < 0 then max (len + e) 0 else min e len)
      in take (nat (max (endIndex - beginIndex) 0)) (drop (nat beginIndex) a))"

text \<open>
  The number of rounds of \<open>for (let i = 0; i < bound; i++)\<close> for a bound that is not
  \<open>+Infinity\<close>.
\<close>

fun loopCount :: "jsnum \<Rightarrow> nat" where
  "loopCount (Num r) = nat \<lceil>r\<rceil>"
| "loopCount bound = 0"

text \<open>
  \<open>new Uint8Array(length)\<close>: the length is converted to an integer, with \<open>NaN\<close> as 0; a
  negative or too large one is a \<open>RangeError\<close>.  That an engine refuses lengths it cannot
  allocate is not modelled.
\<close>

fun newUint8Array :: "jsnum \<Rightarrow> js_error + nat list" where
  "newUint8Array (Num r) =
     (if trunc r < 0 \<or> 2 ^ 53 - 1 < trunc r then Inl RangeError
      else Inr (replicate (nat (trunc r)) 0))"
| "newUint8Array NaN = Inr []"
| "newUint8Array a = Inl RangeError"

subsection \<open>Floating-point arithmetic\<close>

text \<open>
  The numbers of the program are double-precision floats, and the arrays \<open>window\<close>,
  \<open>sinTable\<close>, \<open>cosTable\<close>, \<open>real\<close> and \<open>imag\<close> are \<open>Float32Array\<close>s: every
  arithmetic operation on sample values and every call of \<open>Math.cos\<close>, \<open>Math.sin\<close>,
  \<open>Math.sqrt\<close>, \<open>Math.log2\<close> and \<open>Math.log10\<close> rounds to a double or overflows to an
  infinity, and every store into a \<open>Float32Array\<close> rounds once more, to single precision.
  These operations are the fields of the record \<open>fpenv\<close>, a parameter of the transform:
  \<open>fadd\<close>, \<open>fsub\<close>, \<open>fmul\<close> and \<open>fdiv\<close> are \<open>+\<close>, \<open>-\<close>, \<open>*\<close> and \<open>/\<close> on doubles,
  \<open>f32\<close> is the conversion of a store into a \<open>Float32Array\<close>, \<open>fpi\<close> is the constant
  \<open>Math.PI\<close> and \<open>fmicro\<close> the literal \<open>1e-6\<close>.  What is proved of the transform below is
  proved for every such record, so for the arithmetic of any engine.

  The arithmetic on lengths and indices stays exact: sums, differences and products of
  integers below \<open>2 ^ 53\<close> and their quotients by a power of two are doubles, and the
  literals 0, 0.5, 1, 2, 4, 20, 60 and 255 are too.
\<close>

record fpenv =
  fadd :: "jsnum \<Rightarrow> jsnum \<Rightarrow> jsnum"
  fsub :: "jsnum \<Rightarrow> jsnum \<Rightarrow> jsnum"
  fmul :: "jsnum \<Rightarrow> jsnum \<Rightarrow> jsnum"
  fdiv :: "jsnum \<Rightarrow> jsnum \<Rightarrow> jsnum"
  fsqrt :: "jsnum \<Rightarrow> jsnum"
  flog2 :: "jsnum \<Rightarrow> jsnum"
  flog10 :: "jsnum \<Rightarrow> jsnum"
  fcos :: "jsnum \<Rightarrow> jsnum"
  fsin :: "jsnum \<Rightarrow> jsnum"
  f32 :: "jsnum \<Rightarrow> jsnum"
  fpi :: jsnum
  fmicro :: jsnum

text \<open>
  The arithmetic without rounding, in which the worked examples below are computed.
\<close>

definition exactFp :: fpenv where
  "exactFp = \<lparr>fadd = (+), fsub = (-), fmul = (*), fdiv = (/),
              fsqrt = Math_sqrt, flog2 = Math_log2, flog10 = Math_log10,
              fcos = Math_cos, fsin = Math_sin, f32 = (\<lambda>x. x),
              fpi = Num pi, fmicro = Num 0.000001\<rparr>"

subsection \<open>The tables of generateSpectrogramData\<close>

text \<open>
  The parameters: \<open>channelData\<close> holds the samples of channel 0, finite numbers;
  \<open>fftSize\<close> is a natural number and \<open>hopSize\<close> an integer.  The tables are built once
  in the program; here each is a function of \<open>fftSize\<close>.
\<close>

definition hannWindow :: "fpenv \<Rightarrow> nat \<Rightarrow> jsnum list" where
  "hannWindow fp fftSize =
     map (\<lambda>i. f32 fp
                (fmul fp (Num 0.5)
                   (fsub fp (Num 1)
                      (fcos fp (fdiv fp (fmul fp (fmul fp (Num 2) (fpi fp)) (Num (real i)))
                                        (Num (real fftSize) - Num 1))))))
       [0 ..< fftSize]"

definition reverseBits :: "nat \<Rightarrow> jsnum \<Rightarrow> int" where
  "reverseBits x n =
     foldl (\<lambda>result i.
              if and (js_sar (Num (real x)) (Num (real i))) 1 \<noteq> 0
              then or result (js_shl (Num 1) (n - Num 1 - Num (real i)))
              else result)
       0 [0 ..< loopCount n]"

definition revTable :: "fpenv \<Rightarrow> nat \<Rightarrow> nat list" where
  "revTable fp fftSize =
     (let bits = flog2 fp (Num (real fftSize))
      in map (\<lambda>i. ToUint16 (reverseBits i bits)) [0 ..< fftSize])"

text \<open>
  The sine and cosine tables have \<open>fftSize / 2\<close> elements, rounded down; for an odd
  \<open>fftSize\<close> the last round of the filling loop writes past the end, which does nothing.
\<close>

definition sinTable :: "fpenv \<Rightarrow> nat \<Rightarrow> jsnum list" where
  "sinTable fp fftSize =
     map (\<lambda>i. f32 fp
                (fsin fp (fdiv fp (fmul fp (fmul fp (Num (- 2)) (fpi fp)) (Num (real i)))
                                  (Num (real fftSize)))))
       [0 ..< fftSize div 2]"

definition cosTable :: "fpenv \<Rightarrow> nat \<Rightarrow> jsnum list" where
  "cosTable fp fftSize =
     map (\<lambda>i. f32 fp
                (fcos fp (fdiv fp (fmul fp (fmul fp (Num (- 2)) (fpi fp)) (Num (real i)))
                                  (Num (real fftSize)))))
       [0 ..< fftSize div 2]"

subsection \<open>performFFT\<close>

text \<open>
  The first loop: the windowed input in bit-reversed order, into zeroed arrays.  The
  product is rounded to a double and then, by the store, to single precision.
\<close>

definition loadFrame :: "fpenv \<Rightarrow> nat \<Rightarrow> jsnum list \<Rightarrow> jsnum list \<times> jsnum list" where
  "loadFrame fp fftSize input =
     foldl (\<lambda>(re, im) i.
              (arraySet re (Num (real (revTable fp fftSize ! i)))
                 (f32 fp (fmul fp (arrayGet input (Num (real i)))
                                  (arrayGet (hannWindow fp fftSize) (Num (real i))))),
               arraySet im (Num (real (revTable fp fftSize ! i))) (Num 0)))
       (replicate fftSize (Num 0), replicate fftSize (Num 0)) [0 ..< fftSize]"

text \<open>
  The body of the innermost loop, statement by statement; each of the four stores rounds
  to single precision.
\<close>

definition butterfly ::
    "fpenv \<Rightarrow> nat \<Rightarrow> jsnum \<Rightarrow> jsnum \<Rightarrow> nat \<Rightarrow> nat \<Rightarrow> jsnum list \<times> jsnum list
       \<Rightarrow> jsnum list \<times> jsnum list" where
  "butterfly fp fftSize halfSize step i j st =
     (case st of (re, im) \<Rightarrow>
        (let k = Num (real j) * step;
             hi = Num (real i) + Num (real j) + halfSize;
             lo = Num (real i) + Num (real j);
             tReal = fsub fp (fmul fp (arrayGet re hi) (arrayGet (cosTable fp fftSize) k))
                             (fmul fp (arrayGet im hi) (arrayGet (sinTable fp fftSize) k));
             tImag = fadd fp (fmul fp (arrayGet re hi) (arrayGet (sinTable fp fftSize) k))
                             (fmul fp (arrayGet im hi) (arrayGet (cosTable fp fftSize) k));
             re1 = arraySet re hi (f32 fp (fsub fp (arrayGet re lo) tReal));
             im1 = arraySet im hi (f32 fp (fsub fp (arrayGet im lo) tImag));
             re2 = arraySet re1 lo (f32 fp (fadd fp (arrayGet re1 lo) tReal));
             im2 = arraySet im1 lo (f32 fp (fadd fp (arrayGet im1 lo) tImag))
         in (re2, im2)))"

text \<open>
  One round of the loop over \<open>size\<close> (here \<open>size'\<close>): \<open>i\<close> runs through the multiples of
  \<open>size\<close> below \<open>fftSize\<close> and \<open>j\<close> through the integers below \<open>halfSize\<close>.
\<close>

definition fftStage ::
    "fpenv \<Rightarrow> nat \<Rightarrow> nat \<Rightarrow> jsnum list \<times> jsnum list \<Rightarrow> jsnum list \<times> jsnum list" where
  "fftStage fp fftSize size' st =
     (let halfSize = Num (real size') / Num 2;
          step = Num (real fftSize) / Num (real size')
      in foldl (\<lambda>st i. foldl (\<lambda>st j. butterfly fp fftSize halfSize step i j st) st
                           [0 ..< loopCount halfSize])
           st (map (\<lambda>q. q * size') [0 ..< (fftSize + size' - 1) div size']))"

text \<open>
  The loop over \<open>size\<close>, which doubles from 2 while it is at most \<open>fftSize\<close>.  The test
  \<open>0 < size'\<close> always holds; it is there for the termination proof.
\<close>

function fftStages ::
    "fpenv \<Rightarrow> nat \<Rightarrow> nat \<Rightarrow> jsnum list \<times> jsnum list \<Rightarrow> jsnum list \<times> jsnum list" where
  "fftStages fp fftSize size' st =
     (if 0 < size' \<and> size' \<le> fftSize
      then fftStages fp fftSize (size' * 2) (fftStage fp fftSize size' st)
      else st)"
  by pat_completeness auto
termination
  by (relation "measure (\<lambda>(fp, fftSize, size', st). fftSize + 1 - size')") auto

declare fftStages.simps [simp del]

definition performFFT :: "fpenv \<Rightarrow> nat \<Rightarrow> jsnum list \<Rightarrow> jsnum list \<times> jsnum list" where
  "performFFT fp fftSize input = fftStages fp fftSize 2 (loadFrame fp fftSize input)"

subsection \<open>The main loop\<close>

text \<open>Magnitude, decibels and the clamp to 0..255 of one bin.\<close>

definition binIntensity :: "fpenv \<Rightarrow> jsnum \<Rightarrow> jsnum \<Rightarrow> jsnum" where
  "binIntensity fp r i =
     (let mag = fsqrt fp (fadd fp (fmul fp r r) (fmul fp i i));
          val = fmul fp (Num 20) (flog10 fp (fadd fp mag (fmicro fp)));
          intensity = fmul fp (fadd fp val (Num 60)) (Num 4);
          intensity = (if intensity < Num 0 then Num 0 else intensity);
          intensity = (if Num 255 < intensity then Num 255 else intensity)
      in intensity)"




text \<open>The loop over the bins of one column, which stores into the \<open>Uint8Array\<close>.\<close>

definition writeColumn ::
    "fpenv \<Rightarrow> jsnum \<Rightarrow> nat \<Rightarrow> jsnum list \<times> jsnum list \<Rightarrow> nat list \<Rightarrow> nat list" where
  "writeColumn fp height col ri outputData =
     (case ri of (r, i) \<Rightarrow>
        foldl (\<lambda>out bin.
                 arraySet out (Num (real col) * height + (height - Num 1 - Num (real bin)))
                   (ToUint8 (binIntensity fp (arrayGet r (Num (real bin))) (arrayGet i (Num (real bin))))))
          outputData [0 ..< loopCount height])"

text \<open>
  The loop over the columns from \<open>col\<close> on, for a width that is not \<open>+Infinity\<close>; \<open>w\<close> is
  the number of its rounds.  A chunk shorter than \<open>fftSize\<close> ends the loop.  The pause
  every 1000 columns has no effect on the result.
\<close>

function processColumns ::
    "fpenv \<Rightarrow> real list \<Rightarrow> nat \<Rightarrow> int \<Rightarrow> nat \<Rightarrow> nat \<Rightarrow> nat list \<Rightarrow> nat list" where
  "processColumns fp channelData fftSize hopSize w col outputData =
     (if col < w then
        (let startIdx = int col * hopSize;
             chunk = subarray channelData startIdx (startIdx + int fftSize)
         in if length chunk < fftSize then outputData
            else processColumns fp channelData fftSize hopSize w (Suc col)
                   (writeColumn fp (Num (real fftSize) / Num 2) col
                      (performFFT fp fftSize (map Num chunk)) outputData))
      else outputData)"
  by pat_completeness auto
termination
  by (relation "measure (\<lambda>(fp, channelData, fftSize, hopSize, w, col, outputData). w - col)") auto

declare processColumns.simps [simp del]

subsection \<open>generateSpectrogramData\<close>

record MagnitudeField =
  data :: "nat list"
  width :: jsnum
  height :: jsnum
  sampleRate :: real

datatype outcome = Returned MagnitudeField | Thrown js_error | Diverges

text \<open>
  The width is \<open>+Infinity\<close> only for \<open>hopSize = 0\<close>; every column then starts at sample 0,
  and the loop either ends in its first round or never.  The program rounds the quotient
  \<open>(length - fftSize) / hopSize\<close> to a double before \<open>Math.floor\<close>; for integers below
  \<open>2 ^ 53\<close> the rounding error is smaller than the distance of the exact quotient to the
  nearest integer, so the floor is that of the exact quotient, as written here.
\<close>

definition generateSpectrogramData ::
    "fpenv \<Rightarrow> real list \<Rightarrow> real \<Rightarrow> nat \<Rightarrow> int \<Rightarrow> outcome" where
  "generateSpectrogramData fp channelData sampleRate' fftSize hopSize =
     (let length' = Num (real (length channelData));
          width = Math_floor ((length' - Num (real fftSize)) / Num (real_of_int hopSize));
          height = Num (real fftSize) / Num 2
      in case newUint8Array (width * height) of
           Inl e \<Rightarrow> Thrown e
         | Inr outputData \<Rightarrow>
             (if width = PosInf then
                (if length (subarray channelData 0 (int fftSize)) < fftSize
                 then Returned \<lparr>data = outputData, width = width, height = height,
                                 sampleRate = sampleRate'\<rparr>
                 else Diverges)
              else Returned
                     \<lparr>data = processColumns fp channelData fftSize hopSize (loopCount width) 0 outputData,
                      width = width, height = height, sampleRate = sampleRate'\<rparr>))"

text \<open>The configurations the specification calls valid.\<close>

definition validConfig :: "nat \<Rightarrow> int \<Rightarrow> bool" where
  "validConfig fftSize hopSize \<longleftrightarrow> (\<exists>b. 1 \<le> b \<and> fftSize = 2 ^ b) \<and> 0 < hopSize"

section \<open>Arithmetic of numbers\<close>

lemma jsnum_minus_Num [simp]: "Num x - Num y = Num (x - y)"
  by (simp add: minus_jsnum_def)

section \<open>Properties of the label layering\<close>

lemma findLayer_Some:
  "findLayer es s i = Some k \<Longrightarrow> i \<le> k \<and> k - i < length es \<and> es ! (k - i) + 0.1 \<le> s"
proof (induction es arbitrary: i)
  case Nil
  then show ?case by simp
next
  case (Cons e es)
  show ?case
  proof (cases "e + 0.1 \<le> s")
    case True
    with Cons.prems show ?thesis by simp
  next
    case False
    with Cons.prems have "findLayer es s (Suc i) = Some k" by simp
    from Cons.IH[OF this] have "Suc i \<le> k" "k - Suc i < length es" "es ! (k - Suc i) + 0.1 \<le> s"
      by auto
    moreover from \<open>Suc i \<le> k\<close> have "k - i = Suc (k - Suc i)" by simp
    ultimately show ?thesis by simp
  qed
qed

lemma findLayer_first:
  "findLayer es s i = Some k \<Longrightarrow> j < k - i \<Longrightarrow> \<not> es ! j + 0.1 \<le> s"
proof (induction es arbitrary: i j)
  case Nil
  then show ?case by simp
next
  case (Cons e es)
  show ?case
  proof (cases "e + 0.1 \<le> s")
    case True
    with Cons.prems show ?thesis by simp
  next
    case False
    with Cons.prems have f: "findLayer es s (Suc i) = Some k" by simp
    show ?thesis
    proof (cases j)
      case 0
      with False show ?thesis by simp
    next
      case (Suc j')
      with Cons.prems(2) have "j' < k - Suc i" by simp
      from Cons.IH[OF f this] Suc show ?thesis by simp
    qed
  qed
qed

lemma findLayer_None:
  "findLayer es s i = None \<longleftrightarrow> (\<forall>e \<in> set es. \<not> e + 0.1 \<le> s)"
  by (induction es arbitrary: i) auto

lemma findLayer_first_free_lane: "findLayer layers s 0 = first_free_lane layers s"
proof (cases "findLayer layers s 0")
  case None
  then have "\<forall>e \<in> set layers. \<not> e + 0.1 \<le> s" by (simp add: findLayer_None)
  then have "\<not> (\<exists>i < length layers. layers ! i + 0.1 \<le> s)" by auto
  with None show ?thesis by (simp add: first_free_lane_def)
next
  case (Some k)
  from findLayer_Some[OF Some] have k: "k < length layers" "layers ! k + 0.1 \<le> s" by auto
  have "(LEAST i. i < length layers \<and> layers ! i + 0.1 \<le> s) = k"
  proof (rule Least_equality)
    show "k < length layers \<and> layers ! k + 0.1 \<le> s" using k by simp
  next
    fix y assume y: "y < length layers \<and> layers ! y + 0.1 \<le> s"
    show "k \<le> y"
    proof (rule ccontr)
      assume "\<not> k \<le> y"
      then have "y < k - 0" by simp
      from findLayer_first[OF Some this] y show False by simp
    qed
  qed
  with k Some show ?thesis by (auto simp: first_free_lane_def)
qed

lemma placeLabel_rest:
  "map (\<lambda>l. l\<lparr>layerIndex := None\<rparr>) (fst (placeLabel st l)) =
   map (\<lambda>l. l\<lparr>layerIndex := None\<rparr>) (fst st) @ [l\<lparr>layerIndex := None\<rparr>]"
  by (cases st) (simp add: placeLabel_def split: option.splits)

lemma foldl_placeLabel_rest:
  "map (\<lambda>l. l\<lparr>layerIndex := None\<rparr>) (fst (foldl placeLabel st ls)) =
   map (\<lambda>l. l\<lparr>layerIndex := None\<rparr>) (fst st) @ map (\<lambda>l. l\<lparr>layerIndex := None\<rparr>) ls"
  by (induction ls arbitrary: st) (simp_all add: placeLabel_rest)

lemma calculateLabelLayers_rest:
  "map (\<lambda>l. l\<lparr>layerIndex := None\<rparr>) (calculateLabelLayers ls) =
   map (\<lambda>l. l\<lparr>layerIndex := None\<rparr>) (sort_key start ls)"
  by (simp add: calculateLabelLayers_def foldl_placeLabel_rest)

lemma calculateLabelLayers_sorted: "sorted (map start (calculateLabelLayers ls))"
proof -
  have "map start (calculateLabelLayers ls) =
        map (start \<circ> (\<lambda>l. l\<lparr>layerIndex := None\<rparr>)) (calculateLabelLayers ls)"
    by (simp add: comp_def)
  also have "\<dots> = map start (map (\<lambda>l. l\<lparr>layerIndex := None\<rparr>) (sort_key start ls))"
    using calculateLabelLayers_rest[of ls] by (metis map_map)
  also have "\<dots> = map start (sort_key start ls)" by (simp add: comp_def)
  finally show ?thesis by simp
qed

lemma foldl_placeLabel_greedy_layers:
  "fst (foldl placeLabel (processed, layers) ls) = processed @ greedy_layers layers ls"
  by (induction ls arbitrary: processed layers)
     (simp_all add: placeLabel_def findLayer_first_free_lane split: option.splits)

text \<open>
  Claim C5.  For every input, the result of \<open>calculateLabelLayers\<close> is the layering of the
  specification run on the input sorted by start time, from no lanes: each label in turn
  goes to the first lane whose last end time plus 0.1 is at most its start, else to a new
  lane.  Hence the output is in ascending order of start time and is the stable sort of the
  input up to the lane written into each label; one step of the loop of the code is one
  step of that rule; and the labels with times (0,5), (3,8), (6,10) get the lanes 0, 1, 0.
\<close>

theorem calculateLabelLayers_greedy:
  "calculateLabelLayers ls = greedy_layers [] (sort_key start ls)
   \<and> sorted (map start (calculateLabelLayers ls))
   \<and> map (\<lambda>l. l\<lparr>layerIndex := None\<rparr>) (calculateLabelLayers ls) =
     map (\<lambda>l. l\<lparr>layerIndex := None\<rparr>) (sort_key start ls)
   \<and> placeLabel (processed, layers) l =
       (case first_free_lane layers (start l) of
          Some i \<Rightarrow> (processed @ [l\<lparr>layerIndex := Some i\<rparr>], layers[i := end' l])
        | None \<Rightarrow> (processed @ [l\<lparr>layerIndex := Some (length layers)\<rparr>], layers @ [end' l]))
   \<and> map layerIndex (calculateLabelLayers
         [a\<lparr>start := 0, end' := 5\<rparr>, b\<lparr>start := 3, end' := 8\<rparr>, c\<lparr>start := 6, end' := 10\<rparr>])
       = [Some 0, Some 1, Some 0]"
proof (intro conjI)
  show "calculateLabelLayers ls = greedy_layers [] (sort_key start ls)"
    by (simp add: calculateLabelLayers_def foldl_placeLabel_greedy_layers)
  show "sorted (map start (calculateLabelLayers ls))" by (rule calculateLabelLayers_sorted)
  show "map (\<lambda>l. l\<lparr>layerIndex := None\<rparr>) (calculateLabelLayers ls) =
     map (\<lambda>l. l\<lparr>layerIndex := None\<rparr>) (sort_key start ls)" by (rule calculateLabelLayers_rest)
  show "placeLabel (processed, layers) l =
       (case first_free_lane layers (start l) of
          Some i \<Rightarrow> (processed @ [l\<lparr>layerIndex := Some i\<rparr>], layers[i := end' l])
        | None \<Rightarrow> (processed @ [l\<lparr>layerIndex := Some (length layers)\<rparr>], layers @ [end' l]))"
    by (simp add: placeLabel_def findLayer_first_free_lane)
  show "map layerIndex (calculateLabelLayers
         [a\<lparr>start := 0, end' := 5\<rparr>, b\<lparr>start := 3, end' := 8\<rparr>, c\<lparr>start := 6, end' := 10\<rparr>])
       = [Some 0, Some 1, Some 0]"
    by (simp add: calculateLabelLayers_def placeLabel_def)
qed




lemma placeLabel_lanes_ok:
  assumes ok: "lanes_ok st" and lt: "start l < end' l"
  shows "lanes_ok (placeLabel st l)"
proof -
  obtain processed layers where st: "st = (processed, layers)" by (cases st)
  from ok st have
    A: "\<And>p k. p \<in> set processed \<Longrightarrow> layerIndex p = Some k \<Longrightarrow> k < length layers \<and> end' p \<le> layers ! k"
    and B: "\<And>p. p \<in> set processed \<Longrightarrow> layerIndex p \<noteq> None"
    and C: "\<And>a b. b < length processed \<Longrightarrow> a < b \<Longrightarrow> layerIndex (processed ! a) = layerIndex (processed ! b)
          \<Longrightarrow> end' (processed ! a) + 0.1 \<le> start (processed ! b)"
    by (auto simp: lanes_ok_def)
  show ?thesis
  proof (cases "findLayer layers (start l) 0")
    case None
    let ?l = "l\<lparr>layerIndex := Some (length layers)\<rparr>"
    have eq: "placeLabel st l = (processed @ [?l], layers @ [end' l])"
      using None st by (simp add: placeLabel_def)
    have 1: "\<forall>p \<in> set (processed @ [?l]). \<forall>k. layerIndex p = Some k \<longrightarrow>
               k < length (layers @ [end' l]) \<and> end' p \<le> (layers @ [end' l]) ! k"
      using A by (auto simp: nth_append less_Suc_eq)
    have 2: "\<forall>p \<in> set (processed @ [?l]). layerIndex p \<noteq> None"
      using B by auto
    have 3: "\<forall>b < length (processed @ [?l]). \<forall>a < b.
        layerIndex ((processed @ [?l]) ! a) = layerIndex ((processed @ [?l]) ! b)
          \<longrightarrow> end' ((processed @ [?l]) ! a) + 0.1 \<le> start ((processed @ [?l]) ! b)"
    proof (intro allI impI)
      fix b a
      assume b: "b < length (processed @ [?l])" and a: "a < b"
        and same: "layerIndex ((processed @ [?l]) ! a) = layerIndex ((processed @ [?l]) ! b)"
      show "end' ((processed @ [?l]) ! a) + 0.1 \<le> start ((processed @ [?l]) ! b)"
      proof (cases "b < length processed")
        case True
        with a same C[of b a] show ?thesis by (simp add: nth_append)
      next
        case False
        with b have bl: "b = length processed" by simp
        with a have al: "a < length processed" by simp
        then have "processed ! a \<in> set processed" by simp
        moreover from same bl al have "layerIndex (processed ! a) = Some (length layers)"
          by (simp add: nth_append)
        ultimately have "length layers < length layers" using A by blast
        then show ?thesis by simp
      qed
    qed
    from 1 2 3 show ?thesis unfolding eq lanes_ok_def fst_conv snd_conv by blast
  next
    case (Some i)
    let ?l = "l\<lparr>layerIndex := Some i\<rparr>"
    from findLayer_Some[OF Some] have i: "i < length layers" and fit: "layers ! i + 0.1 \<le> start l"
      by auto
    have eq: "placeLabel st l = (processed @ [?l], layers[i := end' l])"
      using Some st by (simp add: placeLabel_def)
    have 1: "\<forall>p \<in> set (processed @ [?l]). \<forall>k. layerIndex p = Some k \<longrightarrow>
               k < length (layers[i := end' l]) \<and> end' p \<le> (layers[i := end' l]) ! k"
    proof (intro ballI allI impI)
      fix p k assume p: "p \<in> set (processed @ [?l])" and k: "layerIndex p = Some k"
      show "k < length (layers[i := end' l]) \<and> end' p \<le> (layers[i := end' l]) ! k"
      proof (cases "p \<in> set processed")
        case True
        from A[OF True k] have kl: "k < length layers" and le: "end' p \<le> layers ! k" by auto
        show ?thesis
        proof (cases "k = i")
          case True
          with le fit lt have "end' p \<le> end' l" by simp
          with True i show ?thesis by simp
        next
          case False
          with kl le show ?thesis by simp
        qed
      next
        case False
        with p have "p = ?l" by simp
        with k i show ?thesis by simp
      qed
    qed
    have 2: "\<forall>p \<in> set (processed @ [?l]). layerIndex p \<noteq> None"
      using B by auto
    have 3: "\<forall>b < length (processed @ [?l]). \<forall>a < b.
        layerIndex ((processed @ [?l]) ! a) = layerIndex ((processed @ [?l]) ! b)
          \<longrightarrow> end' ((processed @ [?l]) ! a) + 0.1 \<le> start ((processed @ [?l]) ! b)"
    proof (intro allI impI)
      fix b a
      assume b: "b < length (processed @ [?l])" and a: "a < b"
        and same: "layerIndex ((processed @ [?l]) ! a) = layerIndex ((processed @ [?l]) ! b)"
      show "end' ((processed @ [?l]) ! a) + 0.1 \<le> start ((processed @ [?l]) ! b)"
      proof (cases "b < length processed")
        case True
        with a same C[of b a] show ?thesis by (simp add: nth_append)
      next
        case False
        with b have bl: "b = length processed" by simp
        with a have al: "a < length processed" by simp
        then have mem: "processed ! a \<in> set processed" by simp
        from same bl al have "layerIndex (processed ! a) = Some i"
          by (simp add: nth_append)
        from A[OF mem this] have "end' (processed ! a) \<le> layers ! i" by simp
        with fit bl al show ?thesis by (simp add: nth_append)
      qed
    qed
    from 1 2 3 show ?thesis unfolding eq lanes_ok_def fst_conv snd_conv by blast
  qed
qed

lemma placeLabel_times:
  "map (\<lambda>l. (start l, end' l)) (fst (placeLabel st l)) =
   map (\<lambda>l. (start l, end' l)) (fst st) @ [(start l, end' l)]"
  by (cases st) (simp add: placeLabel_def split: option.splits)

lemma foldl_placeLabel_lanes_ok:
  "lanes_ok st \<Longrightarrow> \<forall>l \<in> set ls. start l < end' l \<Longrightarrow> lanes_ok (foldl placeLabel st ls)"
  by (induction ls arbitrary: st) (simp_all add: placeLabel_lanes_ok)

lemma foldl_placeLabel_times:
  "map (\<lambda>l. (start l, end' l)) (fst (foldl placeLabel st ls)) =
   map (\<lambda>l. (start l, end' l)) (fst st) @ map (\<lambda>l. (start l, end' l)) ls"
  by (induction ls arbitrary: st) (simp_all add: placeLabel_times)

lemma lanes_ok_init: "lanes_ok ([], [])"
  by (simp add: lanes_ok_def)

lemma calculateLabelLayers_lanes_ok:
  "\<forall>l \<in> set ls. start l < end' l \<Longrightarrow>
   lanes_ok (foldl placeLabel ([], []) (sort_key start ls))"
  by (rule foldl_placeLabel_lanes_ok[OF lanes_ok_init]) simp

lemma calculateLabelLayers_times:
  "map (\<lambda>l. (start l, end' l)) (calculateLabelLayers ls) =
   map (\<lambda>l. (start l, end' l)) (sort_key start ls)"
  by (simp add: calculateLabelLayers_def foldl_placeLabel_times)

lemma calculateLabelLayers_length: "length (calculateLabelLayers ls) = length ls"
  using arg_cong[OF calculateLabelLayers_times[of ls], of length] by simp

text \<open>
  Claim C10.  When every input label has \<open>start < end\<close>, two ls at different
  positions of the result that share a lane do not overlap: the one that starts later
  starts at least 0.1 after the other one ends.
\<close>

theorem calculateLabelLayers_same_lane_disjoint:
  assumes valid: "\<forall>l \<in> set ls. start l < end' l"
    and i: "i < length ls" and j: "j < length ls" and ij: "i \<noteq> j"
    and same: "layerIndex (calculateLabelLayers ls ! i) = layerIndex (calculateLabelLayers ls ! j)"
    and le: "start (calculateLabelLayers ls ! i) \<le> start (calculateLabelLayers ls ! j)"
  shows "end' (calculateLabelLayers ls ! i) + 0.1 \<le> start (calculateLabelLayers ls ! j)"
proof -
  let ?out = "calculateLabelLayers ls"
  have len: "length ?out = length ls" by (rule calculateLabelLayers_length)
  have ok: "lanes_ok (foldl placeLabel ([], []) (sort_key start ls))"
    by (rule calculateLabelLayers_lanes_ok[OF valid])
  then have pair: "\<And>a b. b < length ?out \<Longrightarrow> a < b \<Longrightarrow> layerIndex (?out ! a) = layerIndex (?out ! b)
      \<Longrightarrow> end' (?out ! a) + 0.1 \<le> start (?out ! b)"
    by (simp add: lanes_ok_def calculateLabelLayers_def)
  have "(start (?out ! j), end' (?out ! j)) \<in> set (map (\<lambda>l. (start l, end' l)) ?out)"
    using j len by (metis (no_types, lifting) in_set_conv_nth length_map nth_map)
  then have "(start (?out ! j), end' (?out ! j)) \<in> (\<lambda>l. (start l, end' l)) ` set ls"
    by (simp add: calculateLabelLayers_times)
  with valid have ltj: "start (?out ! j) < end' (?out ! j)" by auto
  show ?thesis
  proof (cases "i < j")
    case True
    with pair[of j i] j len same show ?thesis by simp
  next
    case False
    with ij have "j < i" by simp
    with pair[of i j] i len same have "end' (?out ! j) + 0.1 \<le> start (?out ! i)" by simp
    with le ltj show ?thesis by simp
  qed
qed

theorem calculateLabelLayers_same_lane_disjoint_witness:
  "list_all (\<lambda>l. start l < end' l)
      [\<lparr>id' = ''a'', configId = ''0'', start = 0, end' = 5, text' = [], color = None, layerIndex = None\<rparr>,
       \<lparr>id' = ''b'', configId = ''0'', start = 6, end' = 10, text' = [], color = None, layerIndex = None\<rparr>]
   \<and> layerIndex (calculateLabelLayers
        [\<lparr>id' = ''a'', configId = ''0'', start = 0, end' = 5, text' = [], color = None, layerIndex = None\<rparr>,
         \<lparr>id' = ''b'', configId = ''0'', start = 6, end' = 10, text' = [], color = None, layerIndex = None\<rparr>] ! 0)
     = layerIndex (calculateLabelLayers
        [\<lparr>id' = ''a'', configId = ''0'', start = 0, end' = 5, text' = [], color = None, layerIndex = None\<rparr>,
         \<lparr>id' = ''b'', configId = ''0'', start = 6, end' = 10, text' = [], color = None, layerIndex = None\<rparr>] ! 1)
   \<and> end' (calculateLabelLayers
        [\<lparr>id' = ''a'', configId = ''0'', start = 0, end' = 5, text' = [], color = None, layerIndex = None\<rparr>,
         \<lparr>id' = ''b'', configId = ''0'', start = 6, end' = 10, text' = [], color = None, layerIndex = None\<rparr>] ! 0) + 0.1
     \<le> start (calculateLabelLayers
        [\<lparr>id' = ''a'', configId = ''0'', start = 0, end' = 5, text' = [], color = None, layerIndex = None\<rparr>,
         \<lparr>id' = ''b'', configId = ''0'', start = 6, end' = 10, text' = [], color = None, layerIndex = None\<rparr>] ! 1)"
proof -
  let ?ls = "[\<lparr>id' = ''a'', configId = ''0'', start = 0, end' = 5, text' = [], color = None, layerIndex = None\<rparr>,
         \<lparr>id' = ''b'', configId = ''0'', start = 6, end' = 10, text' = [], color = None, layerIndex = None\<rparr>]"
  have v: "\<forall>l \<in> set ?ls. start l < end' l" by simp
  have same: "layerIndex (calculateLabelLayers ?ls ! 0) = layerIndex (calculateLabelLayers ?ls ! 1)"
    by (simp add: calculateLabelLayers_def placeLabel_def)
  have le: "start (calculateLabelLayers ?ls ! 0) \<le> start (calculateLabelLayers ?ls ! 1)"
    by (simp add: calculateLabelLayers_def placeLabel_def)
  have "end' (calculateLabelLayers ?ls ! 0) + 0.1 \<le> start (calculateLabelLayers ?ls ! 1)"
    by (rule calculateLabelLayers_same_lane_disjoint[OF v _ _ _ same le]) simp_all
  with same show ?thesis by simp
qed

section \<open>Properties of label creation\<close>

lemma handleMouseUp_labels:
  "labels (handleMouseUp newId cfg st) =
     (case creatingLabel st of
        None \<Rightarrow> labels st
      | Some c \<Rightarrow>
          if max (cl_start c) (cl_current c) - min (cl_start c) (cl_current c) > 0.05
          then labels st @
            [\<lparr>id' = newId, configId = key cfg,
              start = min (cl_start c) (cl_current c), end' = max (cl_start c) (cl_current c),
              text' = (if key cfg = ''0'' then [] else ctext cfg),
              color = ccolor cfg, layerIndex = None\<rparr>]
          else labels st)"
  by (simp add: handleMouseUp_def Let_def split: option.splits)

lemma max_minus_min_abs: "max a b - min a b = \<bar>b - a\<bar>" for a b :: real
  by (simp add: max_def min_def)

text \<open>
  Claim C7.  On release of a creation drag from \<open>cl_start\<close> to \<open>cl_current\<close>, a label is
  appended exactly when the two times differ by more than 0.05; otherwise the label list
  is unchanged.  The new label has the key and colour of the active category and its
  text, except that the category with key "0" gives the empty text.
\<close>

theorem handleMouseUp_commit:
  assumes "creatingLabel st = Some c"
  shows "(\<bar>cl_current c - cl_start c\<bar> > 0.05 \<longrightarrow>
            labels (handleMouseUp newId cfg st) = labels st @
              [\<lparr>id' = newId, configId = key cfg,
                start = min (cl_start c) (cl_current c), end' = max (cl_start c) (cl_current c),
                text' = (if key cfg = ''0'' then [] else ctext cfg),
                color = ccolor cfg, layerIndex = None\<rparr>])
       \<and> (\<bar>cl_current c - cl_start c\<bar> \<le> 0.05 \<longrightarrow>
            labels (handleMouseUp newId cfg st) = labels st)
       \<and> creatingLabel (handleMouseUp newId cfg st) = None"
proof -
  have "creatingLabel (handleMouseUp newId cfg st) = None"
    using assms by (simp add: handleMouseUp_def Let_def)
  then show ?thesis
    using assms by (simp add: handleMouseUp_labels max_minus_min_abs)
qed

theorem handleMouseUp_commit_witness:
  "labels (handleMouseUp ''x1''
      \<lparr>key = ''1'', ctext = ''call'', ccolor = Some ''#ef4444''\<rparr>
      \<lparr>labels = [], selectedLabelId = None, labelConfigs = [], activeLabelIndex = 1,
       scrollLeft = 0, dragStart = None,
       creatingLabel = Some \<lparr>cl_start = 2, cl_current = 1\<rparr>,
       resizingLabel = None, draggedLabel = None\<rparr>)
   = [\<lparr>id' = ''x1'', configId = ''1'', start = 1, end' = 2, text' = ''call'',
       color = Some ''#ef4444'', layerIndex = None\<rparr>]
   \<and> labels (handleMouseUp ''x1''
      \<lparr>key = ''0'', ctext = ''Custom Label'', ccolor = Some ''#ffffff''\<rparr>
      \<lparr>labels = [], selectedLabelId = None, labelConfigs = [], activeLabelIndex = 0,
       scrollLeft = 0, dragStart = None,
       creatingLabel = Some \<lparr>cl_start = 1, cl_current = 2\<rparr>,
       resizingLabel = None, draggedLabel = None\<rparr>)
   = [\<lparr>id' = ''x1'', configId = ''0'', start = 1, end' = 2, text' = [],
       color = Some ''#ffffff'', layerIndex = None\<rparr>]
   \<and> labels (handleMouseUp ''x1''
      \<lparr>key = ''1'', ctext = ''call'', ccolor = Some ''#ef4444''\<rparr>
      \<lparr>labels = [], selectedLabelId = None, labelConfigs = [], activeLabelIndex = 1,
       scrollLeft = 0, dragStart = None,
       creatingLabel = Some \<lparr>cl_start = 1, cl_current = 1.03125\<rparr>,
       resizingLabel = None, draggedLabel = None\<rparr>)
   = []"
proof -
  let ?cfg = "\<lparr>key = ''1'', ctext = ''call'', ccolor = Some ''#ef4444''\<rparr>"
  let ?dflt = "\<lparr>key = ''0'', ctext = ''Custom Label'', ccolor = Some ''#ffffff''\<rparr>"
  let ?sta = "\<lambda>c. \<lparr>labels = [], selectedLabelId = None, labelConfigs = [], activeLabelIndex = 1,
       scrollLeft = 0, dragStart = None, creatingLabel = Some c,
       resizingLabel = None, draggedLabel = None\<rparr>"
  let ?stb = "\<lambda>c. \<lparr>labels = [], selectedLabelId = None, labelConfigs = [], activeLabelIndex = 0,
       scrollLeft = 0, dragStart = None, creatingLabel = Some c,
       resizingLabel = None, draggedLabel = None\<rparr>"
  have a: "creatingLabel (?sta \<lparr>cl_start = 2, cl_current = 1\<rparr>) = Some \<lparr>cl_start = 2, cl_current = 1\<rparr>"
    by simp
  have b: "creatingLabel (?stb \<lparr>cl_start = 1, cl_current = 2\<rparr>) = Some \<lparr>cl_start = 1, cl_current = 2\<rparr>"
    by simp
  have c: "creatingLabel (?sta \<lparr>cl_start = 1, cl_current = 1.03125\<rparr>) = Some \<lparr>cl_start = 1, cl_current = 1.03125\<rparr>"
    by simp
  show ?thesis
    using handleMouseUp_commit[OF a, where newId = "''x1''" and cfg = ?cfg]
      handleMouseUp_commit[OF b, where newId = "''x1''" and cfg = ?dflt]
      handleMouseUp_commit[OF c, where newId = "''x1''" and cfg = ?cfg]
    by simp
qed

section \<open>Properties of category deletion\<close>

lemma digitChar_neq_0: "0 < d \<Longrightarrow> d < 10 \<Longrightarrow> digitChar d \<noteq> CHR ''0''"
proof -
  assume "0 < d" "d < 10"
  then have "d \<in> {1, 2, 3, 4, 5, 6, 7, 8, 9}" by auto
  then show ?thesis by (auto simp: digitChar_def)
qed

lemma natToString_length: "0 < length (natToString n)"
  by (subst natToString.simps) simp

lemma natToString_eq_0: "natToString n = ''0'' \<longleftrightarrow> n = 0"
proof (cases "n < 10")
  case True
  then have eq: "natToString n = [digitChar n]" by (subst natToString.simps) simp
  show ?thesis
  proof (cases "n = 0")
    case True
    with eq show ?thesis by (simp add: digitChar_def)
  next
    case False
    with \<open>n < 10\<close> digitChar_neq_0[of n] eq show ?thesis by simp
  qed
next
  case False
  have "length (natToString n) = length (natToString (n div 10)) + 1"
    using False by (subst natToString.simps) simp
  with natToString_length[of "n div 10"] have "length (natToString n) \<noteq> 1" by simp
  with False show ?thesis by auto
qed

lemma keys_indexed_nth:
  assumes "keys_indexed cs" "i < length cs"
  shows "key (cs ! i) = natToString i"
proof -
  have "map key cs ! i = map natToString [0 ..< length cs] ! i"
    using assms by (simp add: keys_indexed_def)
  with assms(2) show ?thesis by simp
qed

lemma handleDeleteCategory_labels:
  assumes "0 < idx" "idx < length (labelConfigs st)"
  shows "\<exists>st'. handleDeleteCategory idx True st = Inr st' \<and>
           labels st' = map (convertToCustom (key (labelConfigs st ! idx))) (labels st)"
proof (cases "filter (\<lambda>l. configId l = key (labelConfigs st ! idx)) (labels st) = []")
  case True
  then have "\<forall>l \<in> set (labels st). configId l \<noteq> key (labelConfigs st ! idx)"
    by (simp add: filter_empty_conv)
  then have "map (convertToCustom (key (labelConfigs st ! idx))) (labels st) = labels st"
    by (simp add: convertToCustom_def map_idI)
  with True assms show ?thesis
    by (simp add: handleDeleteCategory_def Let_def)
next
  case False
  with assms show ?thesis
    by (simp add: handleDeleteCategory_def Let_def)
qed

text \<open>
  Claim C8.  Deleting the category at a position other than 0 with the answer "convert"
  succeeds, rewrites exactly the labels whose \<open>configId\<close> is the deleted category's key
  to \<open>configId\<close> "0" and colour "#ffffff" in one update of the label list, and leaves no
  label with the deleted key.
\<close>

theorem handleDeleteCategory_reassign:
  assumes "keys_indexed (labelConfigs st)" and "0 < idx" and "idx < length (labelConfigs st)"
  shows "\<exists>st'. handleDeleteCategory idx True st = Inr st' \<and>
           labels st' =
             map (\<lambda>l. if configId l = key (labelConfigs st ! idx)
                      then l\<lparr>configId := ''0'', color := Some ''#ffffff''\<rparr> else l) (labels st) \<and>
           filter (\<lambda>l. configId l = key (labelConfigs st ! idx)) (labels st') = []"
proof -
  let ?k = "key (labelConfigs st ! idx)"
  from keys_indexed_nth[OF assms(1,3)] assms(2) have k0: "?k \<noteq> ''0''"
    by (simp add: natToString_eq_0)
  have conv: "convertToCustom ?k =
      (\<lambda>l. if configId l = ?k then l\<lparr>configId := ''0'', color := Some ''#ffffff''\<rparr> else l)"
    by (rule ext) (simp add: convertToCustom_def)
  have none: "filter (\<lambda>l. configId l = ?k) (map (convertToCustom ?k) (labels st)) = []"
    using k0 by (auto simp: filter_empty_conv convertToCustom_def)
  obtain st' where st': "handleDeleteCategory idx True st = Inr st'"
    "labels st' = map (convertToCustom ?k) (labels st)"
    using handleDeleteCategory_labels[OF assms(2,3)] by blast
  from none st'(2) have "filter (\<lambda>l. configId l = ?k) (labels st') = []" by simp
  with st' show ?thesis unfolding conv by blast
qed


theorem handleDeleteCategory_reassign_witness:
  "keys_indexed [\<lparr>key = ''0'', ctext = ''Custom Label'', ccolor = Some ''#ffffff''\<rparr>,
                 \<lparr>key = ''1'', ctext = ''call'', ccolor = Some ''#ef4444''\<rparr>]
   \<and> (\<exists>st'. handleDeleteCategory 1 True
        \<lparr>labels =
           [\<lparr>id' = ''a'', configId = ''1'', start = 1, end' = 2, text' = ''call'',
              color = Some ''#ef4444'', layerIndex = None\<rparr>,
            \<lparr>id' = ''b'', configId = ''1'', start = 3, end' = 4, text' = ''call'',
              color = Some ''#ef4444'', layerIndex = None\<rparr>],
         selectedLabelId = None,
         labelConfigs =
           [\<lparr>key = ''0'', ctext = ''Custom Label'', ccolor = Some ''#ffffff''\<rparr>,
            \<lparr>key = ''1'', ctext = ''call'', ccolor = Some ''#ef4444''\<rparr>],
         activeLabelIndex = 1, scrollLeft = 0, dragStart = None, creatingLabel = None,
         resizingLabel = None, draggedLabel = None\<rparr> = Inr st'
      \<and> map configId (labels st') = [''0'', ''0'']
      \<and> map color (labels st') = [Some ''#ffffff'', Some ''#ffffff'']
      \<and> length (filter (\<lambda>l. configId l = ''1'') (labels st')) = 0)"
proof -
  let ?cs = "[\<lparr>key = ''0'', ctext = ''Custom Label'', ccolor = Some ''#ffffff''\<rparr>,
              \<lparr>key = ''1'', ctext = ''call'', ccolor = Some ''#ef4444''\<rparr>]"
  let ?ex = "\<lparr>labels =
           [\<lparr>id' = ''a'', configId = ''1'', start = 1, end' = 2, text' = ''call'',
              color = Some ''#ef4444'', layerIndex = None\<rparr>,
            \<lparr>id' = ''b'', configId = ''1'', start = 3, end' = 4, text' = ''call'',
              color = Some ''#ef4444'', layerIndex = None\<rparr>],
         selectedLabelId = None, labelConfigs = ?cs,
         activeLabelIndex = 1, scrollLeft = 0, dragStart = None, creatingLabel = None,
         resizingLabel = None, draggedLabel = None\<rparr>"
  have "[0 ..< 2] = [0, Suc 0]" by (simp add: upt_rec)
  then have k: "keys_indexed ?cs"
    by (simp add: keys_indexed_def natToString.simps digitChar_def)
  then have k': "keys_indexed (labelConfigs ?ex)" by simp
  have lt: "0 < (1::nat)" "1 < length (labelConfigs ?ex)" by simp_all
  from handleDeleteCategory_reassign[OF k' lt] k show ?thesis
    by auto
qed

section \<open>Properties of the export\<close>

lemma foldl_append_lines:
  "foldl (\<lambda>acc l. acc @ f l) a ls = a @ concat (map f ls)"
  by (induction ls arbitrary: a) simp_all

lemma natToString_1000000: "natToString 1000000 = ''1000000''"
  by (simp add: natToString.simps digitChar_def)

lemma natToString_2500000: "natToString 2500000 = ''2500000''"
  by (simp add: natToString.simps digitChar_def)

lemma toFixed_6_1: "toFixed ts 6 1 = ''1.000000''"
  unfolding toFixed_def Let_def by (simp add: natToString_1000000)

lemma toFixed_6_2_5: "toFixed ts 6 (5 / 2) = ''2.500000''"
  unfolding toFixed_def Let_def by (simp add: natToString_2500000)

lemma natToString_digits: "set (natToString n) \<subseteq> set ''0123456789''"
proof (induction n rule: natToString.induct)
  case (1 n)
  have d: "digitChar k \<in> set ''0123456789''" if "k < 10" for k
    unfolding digitChar_def using that by (intro nth_mem) simp
  show ?case
  proof (cases "n < 10")
    case True
    then show ?thesis using d[of n] by (subst natToString.simps) simp
  next
    case False
    with "1.IH" d[of "n mod 10"] show ?thesis by (subst natToString.simps) simp
  qed
qed

lemma toFixed_6_shape:
  assumes "\<bar>x\<bar> < 10 ^ 21"
  shows "\<exists>s a b. toFixed ts 6 x = s @ a @ ''.'' @ b \<and> (s = [] \<or> s = ''-'') \<and> a \<noteq> [] \<and>
           length b = 6 \<and> set (a @ b) \<subseteq> set ''0123456789''"
proof -
  define y where "y = (if x < 0 then - x else x)"
  define m where "m = natToString (nat \<lfloor>y * 10 ^ 6 + 1 / 2\<rfloor>)"
  define m1 where "m1 = (if length m \<le> 6 then replicate (6 + 1 - length m) CHR ''0'' @ m else m)"
  define s where "s = (if x < 0 then ''-'' else [])"
  have y: "\<not> y \<ge> 10 ^ 21" using assms unfolding y_def by (auto simp: abs_if split: if_splits)
  have tf: "toFixed ts 6 x = s @ take (length m1 - 6) m1 @ ''.'' @ drop (length m1 - 6) m1"
    using y unfolding toFixed_def Let_def y_def[symmetric] m_def[symmetric] m1_def[symmetric] s_def
    by simp
  have len: "7 \<le> length m1" by (simp add: m1_def)
  have "set m \<subseteq> set ''0123456789''" unfolding m_def by (rule natToString_digits)
  then have dig: "set m1 \<subseteq> set ''0123456789''" by (auto simp: m1_def)
  have "set (take (length m1 - 6) m1 @ drop (length m1 - 6) m1) \<subseteq> set ''0123456789''"
    using dig by simp
  moreover have "take (length m1 - 6) m1 \<noteq> []" using len by auto
  moreover have "length (drop (length m1 - 6) m1) = 6" using len by simp
  moreover have "s = [] \<or> s = ''-''" by (simp add: s_def)
  ultimately show ?thesis using tf by blast
qed

text \<open>
  Claim C9.  The exported content is the concatenation, in list order and with nothing
  before it, of one line per label: start and end through \<open>toFixed(6)\<close>, each followed by
  a tab, then the text and a newline.  \<open>toFixed(6)\<close> of a number below \<open>10^21\<close> in
  magnitude is an optional minus sign, at least one digit, the point and exactly six
  digits.  For the single label from 1.0 to 2.5 with the text "call" the content is
  "1.000000", tab, "2.500000", tab, "call", newline.
\<close>

theorem exportToAudacity_lines:
  "exportToAudacity ts ls =
     concat (map (\<lambda>l. toFixed ts 6 (start l) @ [CHR 0x09] @ toFixed ts 6 (end' l) @ [CHR 0x09]
                       @ text' l @ [CHR 0x0A]) ls)
   \<and> (\<bar>x\<bar> < 10 ^ 21 \<longrightarrow>
        (\<exists>s a b. toFixed ts 6 x = s @ a @ ''.'' @ b \<and> (s = [] \<or> s = ''-'') \<and> a \<noteq> [] \<and>
           length b = 6 \<and> set (a @ b) \<subseteq> set ''0123456789''))
   \<and> exportToAudacity ts [l\<lparr>start := 1.0, end' := 2.5, text' := ''call''\<rparr>] =
       ''1.000000'' @ [CHR 0x09] @ ''2.500000'' @ [CHR 0x09] @ ''call'' @ [CHR 0x0A]"
proof (intro conjI)
  have "audacityLine ts = (\<lambda>l. toFixed ts 6 (start l) @ [CHR 0x09] @ toFixed ts 6 (end' l) @ [CHR 0x09]
                       @ text' l @ [CHR 0x0A])"
    by (rule ext) (simp add: audacityLine_def)
  then show "exportToAudacity ts ls =
     concat (map (\<lambda>l. toFixed ts 6 (start l) @ [CHR 0x09] @ toFixed ts 6 (end' l) @ [CHR 0x09]
                       @ text' l @ [CHR 0x0A]) ls)"
    by (simp add: exportToAudacity_def foldl_append_lines)
  show "\<bar>x\<bar> < 10 ^ 21 \<longrightarrow>
        (\<exists>s a b. toFixed ts 6 x = s @ a @ ''.'' @ b \<and> (s = [] \<or> s = ''-'') \<and> a \<noteq> [] \<and>
           length b = 6 \<and> set (a @ b) \<subseteq> set ''0123456789'')"
    using toFixed_6_shape[of x ts] by blast
  show "exportToAudacity ts [l\<lparr>start := 1.0, end' := 2.5, text' := ''call''\<rparr>] =
       ''1.000000'' @ [CHR 0x09] @ ''2.500000'' @ [CHR 0x09] @ ''call'' @ [CHR 0x0A]"
    by (simp add: exportToAudacity_def audacityLine_def toFixed_6_1 toFixed_6_2_5)
qed

theorem exportToAudacity_lines_witness:
  "exportToAudacity (\<lambda>x. [])
     [\<lparr>id' = ''a'', configId = ''1'', start = 1.0, end' = 2.5, text' = ''call'',
        color = Some ''#ef4444'', layerIndex = None\<rparr>] =
       ''1.000000'' @ [CHR 0x09] @ ''2.500000'' @ [CHR 0x09] @ ''call'' @ [CHR 0x0A]
   \<and> (\<exists>s a b. toFixed (\<lambda>x. []) 6 (5 / 2) = s @ a @ ''.'' @ b \<and> length b = 6)"
proof -
  have "\<bar>5 / 2 :: real\<bar> < 10 ^ 21" by simp
  with exportToAudacity_lines[where ts = "\<lambda>x. []" and ls = "[]" and x = "5 / 2" and
      l = "\<lparr>id' = ''a'', configId = ''1'', start = 1.0, end' = 2.5, text' = ''call'',
        color = Some ''#ef4444'', layerIndex = None\<rparr>"]
  show ?thesis by auto
qed


section \<open>Properties of resizing and dragging\<close>

lemma getPointerTime_range:
  assumes "getPointerTime p scroll clientX = Some t" and "0 \<le> duration p"
  shows "0 \<le> t \<and> t \<le> duration p"
  using assms
  by (auto simp: getPointerTime_def Let_def split: option.splits if_splits)

lemma label_min_length_in_range: "label_min_length d l \<Longrightarrow> label_in_range d l"
  by (simp add: label_min_length_def label_in_range_def)

lemma resizeLabel_min_length:
  assumes "label_min_length d l" and "0 \<le> t" and "t \<le> d"
  shows "label_min_length d (resizeLabel r t l)"
  using assms by (auto simp: label_min_length_def resizeLabel_def)

lemma dragLabel_duration:
  "end' (dragLabel d t l) - start (dragLabel d t l) = end' l - start l"
  by (simp add: dragLabel_def Let_def)

lemma dragLabel_start_nonneg:
  "0 \<le> start l \<Longrightarrow> 0 \<le> start (dragLabel d t l)"
  by (simp add: dragLabel_def Let_def)

lemma handleMouseUp_min_length:
  assumes "creatingLabel st = Some c"
    and "0 \<le> cl_start c" "cl_start c \<le> d" "0 \<le> cl_current c" "cl_current c \<le> d"
    and "\<forall>l \<in> set (labels st). label_min_length d l"
  shows "\<forall>l \<in> set (labels (handleMouseUp newId cfg st)). label_min_length d l"
  using assms
  by (auto simp: handleMouseUp_def Let_def label_min_length_def)

lemma handleMouseMove_resize_min_length:
  assumes "handleMouseMove p clientX st = Some st'"
    and "dragStart st = None" "creatingLabel st = None" "resizingLabel st = Some r"
    and "0 \<le> duration p"
    and "\<forall>l \<in> set (labels st). label_min_length (duration p) l"
  shows "\<forall>l \<in> set (labels st'). label_min_length (duration p) l"
proof -
  from assms(1-4) obtain t where t: "getPointerTime p (scrollLeft st) clientX = Some t"
    and st': "st' = st\<lparr>labels := map (resizeLabel r t) (labels st)\<rparr>"
    by (auto simp: handleMouseMove_def split: option.splits)
  from getPointerTime_range[OF t assms(5)] have "0 \<le> t" "t \<le> duration p" by auto
  with assms(6) show ?thesis
    by (auto simp: st' intro: resizeLabel_min_length)
qed

text \<open>
  Claim C6.  The drag keeps the length of the label and keeps its start at or above 0,
  but it does not bound the end: a label from 0 to 1 in a medium of duration 2, grabbed at
  0.5 and dragged to the pointer time 2, becomes the label from 1.5 to 2.5, past the
  duration.
\<close>

theorem handleMouseMove_drag_past_duration:
  "label_in_range 2
      \<lparr>id' = ''a'', configId = ''0'', start = 0, end' = 1, text' = ''x'',
        color = Some ''#ffffff'', layerIndex = None\<rparr>
   \<and> getPointerTime \<lparr>duration = 2, pixelsPerSecond = 100, containerLeft = Some 0\<rparr> 0 200 = Some 2
   \<and> map_option labels
       (handleMouseMove \<lparr>duration = 2, pixelsPerSecond = 100, containerLeft = Some 0\<rparr> 200
         \<lparr>labels = [\<lparr>id' = ''a'', configId = ''0'', start = 0, end' = 1, text' = ''x'',
                      color = Some ''#ffffff'', layerIndex = None\<rparr>],
          selectedLabelId = Some ''a'', labelConfigs = DEFAULT_LABEL_CONFIGS,
          activeLabelIndex = 0, scrollLeft = 0, dragStart = None, creatingLabel = None,
          resizingLabel = None,
          draggedLabel = Some \<lparr>dl_id = ''a'', dl_startOffset = 0.5\<rparr>\<rparr>)
     = Some [\<lparr>id' = ''a'', configId = ''0'', start = 1.5, end' = 2.5, text' = ''x'',
               color = Some ''#ffffff'', layerIndex = None\<rparr>]
   \<and> \<not> label_in_range 2
      \<lparr>id' = ''a'', configId = ''0'', start = 1.5, end' = 2.5, text' = ''x'',
        color = Some ''#ffffff'', layerIndex = None\<rparr>"
  by (simp add: label_in_range_def getPointerTime_def handleMouseMove_def dragLabel_def Let_def)


section \<open>Properties of the frequency scales\<close>

lemma normY_Num:
  assumes "y < h"
  shows "Num 1 - Num (real y) / Num (real h) = Num (1 - real y / real h)"
  using assms by simp

lemma targetFreq_Linear:
  assumes "y < h"
  shows "targetFreq Linear (Num minFreq) (Num maxFreq) (Num (real h)) (Num (real y)) =
         Num (minFreq + (1 - real y / real h) * (maxFreq - minFreq))"
  using assms by (simp add: targetFreq_def Let_def)

lemma renderTick_y_Linear:
  assumes "minFreq \<noteq> maxFreq"
  shows "renderTick_y Linear (Num minFreq) (Num maxFreq) (Num hgt) (Num freq) =
         Num (hgt - (freq - minFreq) / (maxFreq - minFreq) * hgt)"
  using assms by (simp add: renderTick_y_def Let_def)

lemma roundtrip_Linear:
  assumes "minFreq < maxFreq" "y < h"
  shows "renderTick_y Linear (Num minFreq) (Num maxFreq) (Num (real h))
           (targetFreq Linear (Num minFreq) (Num maxFreq) (Num (real h)) (Num (real y))) =
         Num (real y)"
proof -
  have h: "real h \<noteq> 0" using assms(2) by simp
  have d: "maxFreq - minFreq \<noteq> 0" using assms(1) by simp
  have "real h - (minFreq + (1 - real y / real h) * (maxFreq - minFreq) - minFreq) /
          (maxFreq - minFreq) * real h = real y"
    using h d by (simp add: field_simps)
  with assms show ?thesis
    by (simp add: targetFreq_Linear renderTick_y_Linear)
qed

lemma targetFreq_Log:
  assumes "0 < maxFreq" "y < h"
  shows "targetFreq Log (Num minFreq) (Num maxFreq) (Num (real h)) (Num (real y)) =
         Num (max minFreq 1 * (maxFreq / max minFreq 1) powr (1 - real y / real h))"
proof -
  have "0 < maxFreq / max minFreq 1" using assms(1) by simp
  moreover have "1 - real y / real h \<noteq> 0" using assms(2) by simp
  ultimately show ?thesis using assms
    by (simp add: targetFreq_def Let_def)
qed

lemma renderTick_y_Log:
  assumes "0 < freq" "0 < maxFreq" "maxFreq \<noteq> max minFreq 1"
  shows "renderTick_y Log (Num minFreq) (Num maxFreq) (Num hgt) (Num freq) =
         Num (hgt - ln (freq / max minFreq 1) / ln (maxFreq / max minFreq 1) * hgt)"
proof -
  have m: "0 < max minFreq 1" by simp
  have "0 < freq / max minFreq 1" "0 < maxFreq / max minFreq 1"
    using assms m by simp_all
  moreover have "maxFreq / max minFreq 1 \<noteq> 1" using assms(3) m by simp
  then have "ln (maxFreq / max minFreq 1) \<noteq> 0"
    using \<open>0 < maxFreq / max minFreq 1\<close> by simp
  ultimately show ?thesis
    using m by (simp add: renderTick_y_def Let_def Math_log_def log_def)
qed

lemma roundtrip_Log:
  assumes "0 < maxFreq" "maxFreq \<noteq> max minFreq 1" "y < h"
  shows "renderTick_y Log (Num minFreq) (Num maxFreq) (Num (real h))
           (targetFreq Log (Num minFreq) (Num maxFreq) (Num (real h)) (Num (real y))) =
         Num (real y)"
proof -
  define s where "s = max minFreq 1"
  define b where "b = maxFreq / s"
  define n where "n = 1 - real y / real h"
  have s: "0 < s" by (simp add: s_def)
  have b: "0 < b" "b \<noteq> 1" using assms(1,2) s by (simp_all add: b_def s_def)
  have lnb: "ln b \<noteq> 0" using b by simp
  have f: "0 < s * b powr n" using s b by simp
  have "ln (s * b powr n / s) = n * ln b"
    using s b by (simp add: ln_powr)
  then have "real h - ln (s * b powr n / s) / ln b * real h = real h - n * real h"
    using lnb by simp
  also have "\<dots> = real y" using assms(3) by (simp add: n_def field_simps)
  finally have eq: "real h - ln (s * b powr n / s) / ln b * real h = real y" .
  have "renderTick_y Log (Num minFreq) (Num maxFreq) (Num (real h)) (Num (s * b powr n)) =
        Num (real h - ln (s * b powr n / s) / ln b * real h)"
    using renderTick_y_Log[OF f assms(1) assms(2), of "real h"] by (simp add: s_def b_def)
  with eq show ?thesis
    using targetFreq_Log[OF assms(1,3), of minFreq] by (simp add: s_def b_def n_def)
qed

lemma toMel_Num:
  assumes "- 700 < f"
  shows "toMel (Num f) = Num (2595 * log 10 (1 + f / 700))"
proof -
  have "0 < 1 + f / 700" using assms by simp
  then show ?thesis by (simp add: toMel_def Math_log10_def)
qed

lemma fromMel_Num: "fromMel (Num m) = Num (700 * (10 powr (m / 2595) - 1))"
  by (simp add: fromMel_def)

lemma toMel_fromMel: "toMel (fromMel (Num m)) = Num m"
proof -
  have "- 700 < 700 * (10 powr (m / 2595) - 1)" by (simp add: algebra_simps)
  from toMel_Num[OF this]
  have "toMel (fromMel (Num m)) = Num (2595 * log 10 (1 + 700 * (10 powr (m / 2595) - 1) / 700))"
    by (simp add: fromMel_Num)
  also have "1 + 700 * (10 powr (m / 2595) - 1) / 700 = 10 powr (m / 2595)"
    by (simp add: field_simps)
  also have "2595 * log 10 (10 powr (m / 2595)) = m" by simp
  finally show ?thesis .
qed

lemma roundtrip_Mel:
  assumes "0 \<le> minFreq" "minFreq < maxFreq" "y < h"
  shows "renderTick_y Mel (Num minFreq) (Num maxFreq) (Num (real h))
           (targetFreq Mel (Num minFreq) (Num maxFreq) (Num (real h)) (Num (real y))) =
         Num (real y)"
proof -
  define a where "a = 2595 * log 10 (1 + minFreq / 700)"
  define c where "c = 2595 * log 10 (1 + maxFreq / 700)"
  define n where "n = 1 - real y / real h"
  have lo: "toMel (Num minFreq) = Num a" using assms(1) by (simp add: toMel_Num a_def)
  have hi: "toMel (Num maxFreq) = Num c" using assms(1,2) by (simp add: toMel_Num c_def)
  have "log 10 (1 + minFreq / 700) < log 10 (1 + maxFreq / 700)"
    using assms(1,2) by simp
  then have ac: "c - a \<noteq> 0" by (simp add: a_def c_def)
  have tf: "targetFreq Mel (Num minFreq) (Num maxFreq) (Num (real h)) (Num (real y)) =
        fromMel (Num (a + n * (c - a)))"
    using assms(3) by (simp add: targetFreq_def Let_def lo hi n_def)
  have "real h - (a + n * (c - a) - a) / (c - a) * real h = real h - n * real h"
    using ac by simp
  also have "\<dots> = real y" using assms(3) by (simp add: n_def field_simps)
  finally have eq: "real h - (a + n * (c - a) - a) / (c - a) * real h = real y" .
  have "renderTick_y Mel (Num minFreq) (Num maxFreq) (Num (real h)) (fromMel (Num (a + n * (c - a)))) =
        Num (real h - (a + n * (c - a) - a) / (c - a) * real h)"
    using ac by (simp add: renderTick_y_def Let_def lo hi toMel_fromMel)
  with eq tf show ?thesis by simp
qed

text \<open>
  Claim C4, as stated, fails on the logarithmic scale when the upper frequency is 1 Hz:
  the lower bound is raised to 1 (\<open>Math.max(minFreq, 1)\<close>), the ratio of the bounds is 1,
  its logarithm is 0, and the tick formula divides 0 by 0.  Row 50 of 100 with the
  bounds 0 and 1 comes back as \<open>NaN\<close>.
\<close>

theorem frequency_row_roundtrip_counterexample:
  "renderTick_y Log (Num 0) (Num 1) (Num 100)
     (targetFreq Log (Num 0) (Num 1) (Num 100) (Num 50)) = NaN"
  by (simp add: targetFreq_def renderTick_y_def Let_def Math_log_def minus_jsnum_def)

text \<open>
  Claim C4, amended.  For \<open>0 \<le> minFreq < maxFreq\<close>, and \<open>maxFreq \<noteq> 1\<close> on the logarithmic
  scale, every row \<open>y\<close> below the height is the row of its own frequency, on each of the
  three scales; in exact arithmetic the two rows are equal.
\<close>

theorem frequency_row_roundtrip:
  assumes "0 \<le> minFreq" and "minFreq < maxFreq" and "y < h"
    and "frequencyScale = Log \<longrightarrow> maxFreq \<noteq> 1"
  shows "renderTick_y frequencyScale (Num minFreq) (Num maxFreq) (Num (real h))
           (targetFreq frequencyScale (Num minFreq) (Num maxFreq) (Num (real h)) (Num (real y))) =
         Num (real y)"
proof (cases frequencyScale)
  case Linear
  with assms show ?thesis by (simp add: roundtrip_Linear)
next
  case Log
  with assms(4) have "maxFreq \<noteq> 1" by simp
  with assms(2) have "maxFreq \<noteq> max minFreq 1" by (simp add: max_def)
  moreover have "0 < maxFreq" using assms(1,2) by simp
  ultimately show ?thesis using Log assms(3) by (simp add: roundtrip_Log)
next
  case Mel
  with assms show ?thesis by (simp add: roundtrip_Mel)
qed


theorem frequency_row_roundtrip_witness:
  "renderTick_y Linear (Num 0) (Num 22050) (Num 100)
     (targetFreq Linear (Num 0) (Num 22050) (Num 100) (Num 25)) = Num 25
   \<and> renderTick_y Log (Num 0) (Num 22050) (Num 100)
     (targetFreq Log (Num 0) (Num 22050) (Num 100) (Num 25)) = Num 25
   \<and> renderTick_y Mel (Num 0) (Num 22050) (Num 100)
     (targetFreq Mel (Num 0) (Num 22050) (Num 100) (Num 25)) = Num 25"
  using frequency_row_roundtrip[of 0 22050 25 100 Linear]
    frequency_row_roundtrip[of 0 22050 25 100 Log]
    frequency_row_roundtrip[of 0 22050 25 100 Mel]
  by simp
section \<open>The analysis on a frame of four samples\<close>

lemma exactFp_fields [simp]:
  "fadd exactFp = (+)" "fsub exactFp = (-)" "fmul exactFp = (*)" "fdiv exactFp = (/)"
  "fsqrt exactFp = Math_sqrt" "flog2 exactFp = Math_log2" "flog10 exactFp = Math_log10"
  "fcos exactFp = Math_cos" "fsin exactFp = Math_sin" "f32 exactFp = (\<lambda>x. x)"
  "fpi exactFp = Num pi" "fmicro exactFp = Num 0.000001"
  by (simp_all add: exactFp_def)

lemma log_2_4: "log 2 4 = 2"
  using log_pow_cancel[of 2 2] by simp
lemma upt_0_4: "[0..<4] = [0,1,2,3]" by (simp add: upt_rec)
lemma upt_0_2: "[0..<2] = [0,1]" by (simp add: upt_rec)

lemma Math_log2_4: "Math_log2 (Num (real 4)) = Num 2"
  by (simp add: Math_log2_def log_2_4)

lemma reverseBits_4: "map (\<lambda>i. reverseBits i (Num 2)) [0,1,2,3] = [0,2,1,3]"
  by (simp add: reverseBits_def upt_0_2 js_sar_def js_shl_def trunc_def minus_jsnum_def)

lemma revTable_4: "revTable exactFp 4 = [0,2,1,3]"
  unfolding revTable_def Let_def exactFp_fields Math_log2_4 upt_0_4 using reverseBits_4 by (simp add: ToUint16_def)

lemma upt_0_1: "[0..<1] = [0]" by (simp add: upt_rec)

lemma cos_240: "cos (4 * pi / 3) = - 1 / 2"
proof -
  have "4 * pi / 3 = pi / 3 + pi" by simp
  then have "cos (4 * pi / 3) = cos (pi / 3 + pi)" by (rule arg_cong)
  also have "\<dots> = - cos (pi / 3)" by (rule cos_periodic_pi)
  finally show ?thesis by (simp add: cos_60)
qed

lemma hannWindow_4: "hannWindow exactFp 4 = [Num 0, Num (3/4), Num (3/4), Num 0]"
  unfolding hannWindow_def upt_0_4 
  apply (simp add: cos_120 cos_240)
  done

lemma upt_4_div_2: "[0..<4 div 2] = [0, Suc 0]" by (simp add: upt_0_2)

lemma sin_quarter: "sin (- 2 * pi * real (Suc 0) / real 4) = - 1"
proof -
  have "- 2 * pi * real (Suc 0) / real 4 = - (pi / 2)" by simp
  then show ?thesis by (simp only: sin_minus sin_pi_half)
qed

lemma cos_quarter: "cos (- 2 * pi * real (Suc 0) / real 4) = 0"
proof -
  have "- 2 * pi * real (Suc 0) / real 4 = - (pi / 2)" by simp
  then show ?thesis by (simp only: cos_minus cos_pi_half)
qed

lemma table_arg_4:
  "Num (- 2) * Num pi * Num (real (Suc 0)) / Num (real 4) = Num (- 2 * pi * real (Suc 0) / real 4)"
  by simp

lemma Math_sin_quarter: "Math_sin (Num (- 2) * Num pi * Num (real (Suc 0)) / Num (real 4)) = Num (-1)"
  unfolding table_arg_4 Math_sin.simps sin_quarter ..

lemma Math_cos_quarter: "Math_cos (Num (- 2) * Num pi * Num (real (Suc 0)) / Num (real 4)) = Num 0"
  unfolding table_arg_4 Math_cos.simps cos_quarter ..

lemma Math_sin_zero: "Math_sin (Num (- 2) * Num pi * Num (real 0) / Num (real 4)) = Num 0"
  by simp

lemma Math_cos_zero: "Math_cos (Num (- 2) * Num pi * Num (real 0) / Num (real 4)) = Num 1"
  by simp

lemma sinTable_4: "sinTable exactFp 4 = [Num 0, Num (- 1)]"
  unfolding sinTable_def upt_4_div_2 exactFp_fields by (simp only: list.map Math_sin_zero Math_sin_quarter)

lemma cosTable_4: "cosTable exactFp 4 = [Num 1, Num 0]"
  unfolding cosTable_def upt_4_div_2 exactFp_fields by (simp only: list.map Math_cos_zero Math_cos_quarter)

lemma replicate_4: "replicate 4 x = [x, x, x, x]" by (simp add: numeral_eq_Suc)

lemma loadFrame_ex: "loadFrame exactFp 4 [Num 0, Num 1, Num 0, Num 0] =
    ([Num 0, Num 0, Num (3/4), Num 0], [Num 0, Num 0, Num 0, Num 0])"
  unfolding loadFrame_def upt_0_4 revTable_4 hannWindow_4 replicate_4
  by (simp add: arrayGet_def arraySet_def)

lemma fftStage_ex_2: "fftStage exactFp 4 2 ([Num 0, Num 0, Num (3/4), Num 0], [Num 0, Num 0, Num 0, Num 0]) =
   ([Num 0, Num 0, Num (3/4), Num (3/4)], [Num 0, Num 0, Num 0, Num 0])"
  unfolding fftStage_def Let_def sinTable_4 cosTable_4
  by (simp add: upt_0_2 upt_0_1 butterfly_def arrayGet_def arraySet_def sinTable_4 cosTable_4 Let_def)

lemma fftStage_ex_4: "fftStage exactFp 4 4 ([Num 0, Num 0, Num (3/4), Num (3/4)], [Num 0, Num 0, Num 0, Num 0]) =
   ([Num (3/4), Num 0, Num (- (3/4)), Num 0], [Num 0, Num (- (3/4)), Num 0, Num (3/4)])"
  unfolding fftStage_def Let_def
  by (simp add: upt_0_2 upt_0_1 butterfly_def arrayGet_def arraySet_def sinTable_4 cosTable_4 Let_def)

lemma performFFT_ex: "performFFT exactFp 4 [Num 0, Num 1, Num 0, Num 0] =
   ([Num (3/4), Num 0, Num (- (3/4)), Num 0], [Num 0, Num (- (3/4)), Num 0, Num (3/4)])"
  unfolding performFFT_def loadFrame_ex
  by (simp add: fftStages.simps[of _ 4 2] fftStages.simps[of _ 4 4] fftStages.simps[of _ 4 8] fftStage_ex_2 fftStage_ex_4)

lemma log10_ex_bounds:
  "- (1 / 8) < log 10 (750001 / 1000000)" "log 10 (750001 / 1000000) < - (9 / 80)"
proof -
  let ?x = "750001 / 1000000 :: real"
  have x: "0 < ?x" by simp
  have "(1 / 10 :: real) < (3 / 4) ^ 8" by (simp add: power_divide)
  also have "\<dots> < ?x ^ 8" by (rule power_strict_mono) simp_all
  finally have "log 10 (1 / 10) < log 10 (?x ^ 8)" by simp
  moreover have "log 10 (1 / 10) = - 1" by (simp add: log_divide)
  moreover have "log 10 (?x ^ 8) = 8 * log 10 ?x" using log_nat_power[of ?x 10 8] by simp
  ultimately show "- (1 / 8) < log 10 ?x" by simp
  have "?x ^ 80 < (19 / 25) ^ 80" by (rule power_strict_mono) simp_all
  also have "\<dots> < (1 / 10 :: real) ^ 9" by (simp add: power_divide)
  finally have "log 10 (?x ^ 80) < log 10 ((1 / 10) ^ 9)" by simp
  moreover have "log 10 ((1 / 10 :: real) ^ 9) = - 9"
    using log_nat_power[of "1 / 10 :: real" 10 9] by (simp add: log_divide)
  moreover have "log 10 (?x ^ 80) = 80 * log 10 ?x" using log_nat_power[of ?x 10 80] by simp
  ultimately show "log 10 ?x < - (9 / 80)" by simp
qed

lemma intensity_ex_bounds:
  "230 < (20 * log 10 (750001 / 1000000) + 60) * 4" "(20 * log 10 (750001 / 1000000) + 60) * 4 < 231"
  using log10_ex_bounds by simp_all

lemma sqrt_9_16: "sqrt (9 / 16) = 3 / 4"
  by (rule real_sqrt_unique) (simp_all add: power2_eq_square)

lemma binIntensity_ex_a: "binIntensity exactFp (Num (3/4)) (Num 0) = Num ((20 * log 10 (750001 / 1000000) + 60) * 4)"
  using intensity_ex_bounds by (simp add: binIntensity_def Let_def Math_log10_def sqrt_9_16)

lemma binIntensity_ex_b: "binIntensity exactFp (Num 0) (Num (- (3/4))) = Num ((20 * log 10 (750001 / 1000000) + 60) * 4)"
  using intensity_ex_bounds by (simp add: binIntensity_def Let_def Math_log10_def sqrt_9_16)

lemma ToUint8_ex: "ToUint8 (Num ((20 * log 10 (750001 / 1000000) + 60) * 4)) = 230"
proof -
  define v :: real where "v = (20 * log 10 (750001 / 1000000) + 60) * 4"
  have b: "230 < v" "v < 231" using intensity_ex_bounds by (simp_all add: v_def)
  have "\<lfloor>v\<rfloor> = 230" by (rule floor_unique) (use b in simp_all)
  moreover have "0 \<le> v" using b by simp
  ultimately have "trunc v = 230" by (simp add: trunc_def)
  then have "ToUint8 (Num v) = 230" by simp
  then show ?thesis by (simp only: v_def)
qed

lemma cell_ex_a: "ToUint8 (binIntensity exactFp (Num (3/4)) (Num 0)) = 230"
  by (simp only: binIntensity_ex_a ToUint8_ex)

lemma cell_ex_b: "ToUint8 (binIntensity exactFp (Num 0) (Num (- (3/4)))) = 230"
  by (simp only: binIntensity_ex_b ToUint8_ex)

lemma writeColumn_ex:
  "writeColumn exactFp (Num (real 4) / Num 2) 0
     ([Num (3/4), Num 0, Num (- (3/4)), Num 0], [Num 0, Num (- (3/4)), Num 0, Num (3/4)]) [0, 0]
   = [230, 230]"
  unfolding writeColumn_def
  by (simp add: upt_0_2 arrayGet_def arraySet_def cell_ex_a cell_ex_b)

lemma generateSpectrogramData_ex:
  "generateSpectrogramData exactFp [0, 1, 0, 0, 0] 44100 4 1 =
     Returned \<lparr>data = [230, 230], width = Num 1, height = Num 2, sampleRate = 44100\<rparr>"
proof -
  have sub: "subarray [0, 1, 0, 0, 0 :: real] 0 4 = [0, 1, 0, 0]"
    by (simp add: subarray_def)
  have pc: "processColumns exactFp [0, 1, 0, 0, 0] 4 1 1 0 [0, 0] = [230, 230]"
    using writeColumn_ex
    by (simp add: processColumns.simps[of _ _ _ _ _ 0] processColumns.simps[of _ _ _ _ _ "Suc 0"] sub performFFT_ex)
  show ?thesis
    unfolding generateSpectrogramData_def Let_def
    using pc by (simp add: trunc_def numeral_eq_Suc[of "num.Bit0 num.One"])
qed

section \<open>Properties of the analysis: dimensions and failures\<close>

lemma processColumns_done: "w \<le> col \<Longrightarrow> processColumns fp cd fftSize hopSize w col out = out"
  by (subst processColumns.simps) simp

lemma width_Num:
  assumes "hopSize \<noteq> 0"
  shows "Math_floor ((Num (real n) - Num (real fftSize)) / Num (real_of_int hopSize)) =
         Num (of_int \<lfloor>(real n - real fftSize) / real_of_int hopSize\<rfloor>)"
  using assms by simp

lemma height_Num: "Num (real fftSize) / Num 2 = Num (real fftSize / 2)"
  by simp

lemma generateSpectrogramData_dims:
  assumes "generateSpectrogramData fp channelData sr fftSize hopSize = Returned f"
    and "hopSize \<noteq> 0"
  shows "width f = Num (of_int \<lfloor>(real (length channelData) - real fftSize) / real_of_int hopSize\<rfloor>)
         \<and> height f = Num (real fftSize / 2)"
proof -
  let ?w = "Num (of_int \<lfloor>(real (length channelData) - real fftSize) / real_of_int hopSize\<rfloor>)"
  have w: "Math_floor ((Num (real (length channelData)) - Num (real fftSize)) / Num (real_of_int hopSize)) = ?w"
    by (rule width_Num[OF assms(2)])
  from assms(1) show ?thesis
    unfolding generateSpectrogramData_def Let_def w height_Num
    by (auto split: sum.splits if_splits)
qed

lemma generateSpectrogramData_returns:
  assumes "0 < hopSize" and "fftSize \<le> length channelData"
    and "of_int \<lfloor>(real (length channelData) - real fftSize) / real_of_int hopSize\<rfloor> * (real fftSize / 2) < 2 ^ 53"
  shows "\<exists>f. generateSpectrogramData fp channelData sr fftSize hopSize = Returned f"
proof -
  let ?q = "\<lfloor>(real (length channelData) - real fftSize) / real_of_int hopSize\<rfloor>"
  let ?p = "of_int ?q * (real fftSize / 2) :: real"
  have w: "Math_floor ((Num (real (length channelData)) - Num (real fftSize)) / Num (real_of_int hopSize)) = Num (of_int ?q)"
    by (rule width_Num) (use assms(1) in simp)
  have "0 \<le> (real (length channelData) - real fftSize) / real_of_int hopSize"
    using assms(1,2) by simp
  then have q: "0 \<le> ?q" by simp
  then have p: "0 \<le> ?p" by simp
  then have t: "trunc ?p = \<lfloor>?p\<rfloor>" by (simp add: trunc_def)
  have "\<lfloor>?p\<rfloor> < 2 ^ 53" using assms(3) by (simp add: floor_less_iff)
  then have ok: "\<not> (trunc ?p < 0 \<or> 2 ^ 53 - 1 < trunc ?p)"
    using p t by simp
  have prod: "Num (of_int ?q) * Num (real fftSize / 2) = Num ?p" by simp
  show ?thesis
    unfolding generateSpectrogramData_def Let_def w height_Num prod
    using ok by (simp del: of_int_mult)
qed

lemma generateSpectrogramData_throws:
  assumes "0 < hopSize" and "2 \<le> fftSize" and "length channelData < fftSize"
  shows "generateSpectrogramData fp channelData sr fftSize hopSize = Thrown RangeError"
proof -
  let ?q = "\<lfloor>(real (length channelData) - real fftSize) / real_of_int hopSize\<rfloor>"
  let ?p = "of_int ?q * (real fftSize / 2) :: real"
  have w: "Math_floor ((Num (real (length channelData)) - Num (real fftSize)) / Num (real_of_int hopSize)) = Num (of_int ?q)"
    by (rule width_Num) (use assms(1) in simp)
  have "(real (length channelData) - real fftSize) / real_of_int hopSize < 0"
    using assms(1,3) by (simp add: divide_neg_pos)
  then have "?q < 0" by (simp add: floor_less_iff)
  then have q: "of_int ?q \<le> (- 1 :: real)" by linarith
  have h: "1 \<le> real fftSize / 2" using assms(2) by simp
  have "?p \<le> - 1"
  proof -
    have "of_int ?q * (real fftSize / 2) \<le> (- 1) * (real fftSize / 2)"
      using q h by (intro mult_right_mono) simp_all
    also have "\<dots> \<le> - 1" using h by simp
    finally show ?thesis .
  qed
  then have "trunc ?p < 0" by (simp add: trunc_def ceiling_less_iff)
  moreover have prod: "Num (of_int ?q) * Num (real fftSize / 2) = Num ?p" by simp
  ultimately show ?thesis
    unfolding generateSpectrogramData_def Let_def w height_Num prod
    by (simp del: of_int_mult)
qed

text \<open>
  Claim C1.  For \<open>fftSize\<close> a power of two from 2 on and \<open>hopSize > 0\<close>, every field the
  analysis returns has the width \<open>floor((N - fftSize) / hopSize)\<close> and the height
  \<open>fftSize / 2\<close>, for \<open>N\<close> samples; and it does return a field when the buffer holds at
  least \<open>fftSize\<close> samples and the output length is below \<open>2^53\<close>.
\<close>

theorem generateSpectrogramData_width_height:
  assumes "validConfig fftSize hopSize"
  shows "(\<forall>f. generateSpectrogramData fp channelData sr fftSize hopSize = Returned f \<longrightarrow>
            width f = Num (of_int \<lfloor>(real (length channelData) - real fftSize) / real_of_int hopSize\<rfloor>)
            \<and> height f = Num (real fftSize / 2))
       \<and> (fftSize \<le> length channelData \<and>
            of_int \<lfloor>(real (length channelData) - real fftSize) / real_of_int hopSize\<rfloor>
              * (real fftSize / 2) < 2 ^ 53 \<longrightarrow>
            (\<exists>f. generateSpectrogramData fp channelData sr fftSize hopSize = Returned f))"
proof -
  from assms have hop: "0 < hopSize" by (simp add: validConfig_def)
  then have "hopSize \<noteq> 0" by simp
  then show ?thesis
    using generateSpectrogramData_dims[of fp channelData sr fftSize hopSize]
      generateSpectrogramData_returns[OF hop, of fftSize channelData fp sr]
    by blast
qed

theorem generateSpectrogramData_width_height_witness:
  "validConfig 4 1
   \<and> generateSpectrogramData exactFp [0, 1, 0, 0, 0] 44100 4 1 =
       Returned \<lparr>data = [230, 230], width = Num 1, height = Num 2, sampleRate = 44100\<rparr>
   \<and> width \<lparr>data = [230, 230], width = Num 1, height = Num 2, sampleRate = 44100\<rparr> = Num 1
   \<and> height \<lparr>data = [230, 230], width = Num 1, height = Num 2, sampleRate = 44100\<rparr> = Num 2"
proof -
  have "(4::nat) = 2 ^ 2" by simp
  then have v: "validConfig 4 1" unfolding validConfig_def by (intro conjI exI[of _ 2]) simp_all
  from generateSpectrogramData_width_height[OF v, of exactFp "[0, 1, 0, 0, 0]" 44100] generateSpectrogramData_ex v
  show ?thesis by simp
qed

lemma generateSpectrogramData_only_RangeError:
  "generateSpectrogramData fp channelData sr fftSize hopSize = Thrown e \<Longrightarrow> e = RangeError"
  unfolding generateSpectrogramData_def Let_def
  by (cases e) (auto split: sum.splits if_splits elim!: newUint8Array.elims)

lemma generateSpectrogramData_returns_nonneg:
  assumes "hopSize \<noteq> 0"
    and "0 \<le> (real (length channelData) - real fftSize) / real_of_int hopSize"
    and "of_int \<lfloor>(real (length channelData) - real fftSize) / real_of_int hopSize\<rfloor> * (real fftSize / 2) < 2 ^ 53"
  shows "\<exists>f. generateSpectrogramData fp channelData sr fftSize hopSize = Returned f"
proof -
  let ?q = "\<lfloor>(real (length channelData) - real fftSize) / real_of_int hopSize\<rfloor>"
  let ?p = "of_int ?q * (real fftSize / 2) :: real"
  have w: "Math_floor ((Num (real (length channelData)) - Num (real fftSize)) / Num (real_of_int hopSize)) = Num (of_int ?q)"
    by (rule width_Num) (rule assms(1))
  from assms(2) have q: "0 \<le> ?q" by simp
  then have p: "0 \<le> ?p" by simp
  then have t: "trunc ?p = \<lfloor>?p\<rfloor>" by (simp add: trunc_def)
  have "\<lfloor>?p\<rfloor> < 2 ^ 53" using assms(3) by (simp add: floor_less_iff)
  then have ok: "\<not> (trunc ?p < 0 \<or> 2 ^ 53 - 1 < trunc ?p)"
    using p t by simp
  have prod: "Num (of_int ?q) * Num (real fftSize / 2) = Num ?p" by simp
  show ?thesis
    unfolding generateSpectrogramData_def Let_def w height_Num prod
    using ok by (simp del: of_int_mult)
qed

lemma generateSpectrogramData_throws_neg:
  assumes "hopSize \<noteq> 0" and "2 \<le> fftSize"
    and "(real (length channelData) - real fftSize) / real_of_int hopSize < 0"
  shows "generateSpectrogramData fp channelData sr fftSize hopSize = Thrown RangeError"
proof -
  let ?q = "\<lfloor>(real (length channelData) - real fftSize) / real_of_int hopSize\<rfloor>"
  let ?p = "of_int ?q * (real fftSize / 2) :: real"
  have w: "Math_floor ((Num (real (length channelData)) - Num (real fftSize)) / Num (real_of_int hopSize)) = Num (of_int ?q)"
    by (rule width_Num) (rule assms(1))
  from assms(3) have "?q < 0" by (simp add: floor_less_iff)
  then have q: "of_int ?q \<le> (- 1 :: real)" by linarith
  have h: "1 \<le> real fftSize / 2" using assms(2) by simp
  have "?p \<le> - 1"
  proof -
    have "of_int ?q * (real fftSize / 2) \<le> (- 1) * (real fftSize / 2)"
      using q h by (intro mult_right_mono) simp_all
    also have "\<dots> \<le> - 1" using h by simp
    finally show ?thesis .
  qed
  then have "trunc ?p < 0" by (simp add: trunc_def ceiling_less_iff)
  moreover have prod: "Num (of_int ?q) * Num (real fftSize / 2) = Num ?p" by simp
  ultimately show ?thesis
    unfolding generateSpectrogramData_def Let_def w height_Num prod
    by (simp del: of_int_mult)
qed

lemma generateSpectrogramData_hop_0_throws:
  assumes "2 \<le> fftSize" and "length channelData \<noteq> fftSize"
  shows "generateSpectrogramData fp channelData sr fftSize 0 = Thrown RangeError"
  using assms unfolding generateSpectrogramData_def Let_def
  by (cases "length channelData < fftSize") simp_all

lemma generateSpectrogramData_hop_0_returns:
  assumes "length channelData = fftSize"
  shows "generateSpectrogramData fp channelData sr fftSize 0 =
         Returned \<lparr>data = [], width = NaN, height = Num (real fftSize / 2), sampleRate = sr\<rparr>"
  using assms unfolding generateSpectrogramData_def Let_def
  by (simp add: processColumns_done)


text \<open>
  Claim C2, as stated, fails: the analysis does not check its configuration.  With six
  samples, \<open>fftSize = 6\<close> and \<open>hopSize = 1\<close> it returns a field of width 0 and height 3;
  with three samples, \<open>fftSize = 4\<close> and \<open>hopSize = -1\<close> it returns a field of width 1 and
  height 2, whose one column stays zero because the chunk is short; with four samples,
  \<open>fftSize = 4\<close> and \<open>hopSize = 0\<close> it returns a field whose width is \<open>NaN\<close>.
\<close>

theorem generateSpectrogramData_invalid_config_counterexample:
  "\<forall>fp. \<not> validConfig 6 1
   \<and> generateSpectrogramData fp [0, 0, 0, 0, 0, 0] 44100 6 1 =
       Returned \<lparr>data = [], width = Num 0, height = Num 3, sampleRate = 44100\<rparr>
   \<and> generateSpectrogramData fp [0, 0, 0] 44100 4 (- 1) =
       Returned \<lparr>data = [0, 0], width = Num 1, height = Num 2, sampleRate = 44100\<rparr>
   \<and> generateSpectrogramData fp [0, 0, 0, 0] 44100 4 0 =
       Returned \<lparr>data = [], width = NaN, height = Num 2, sampleRate = 44100\<rparr>"
proof (intro allI conjI)
  fix fp :: fpenv
  show "\<not> validConfig 6 1"
  proof
    assume "validConfig 6 1"
    then obtain b :: nat where b: "1 \<le> b" "(6::nat) = 2 ^ b" by (auto simp: validConfig_def)
    have "b < 3"
    proof (rule ccontr)
      assume "\<not> b < 3"
      then have "(2::nat) ^ 3 \<le> 2 ^ b" by (intro power_increasing) simp_all
      with b(2) show False by simp
    qed
    with b(1) have "b = 1 \<or> b = 2" by auto
    with b(2) show False by auto
  qed
  show "generateSpectrogramData fp [0, 0, 0, 0, 0, 0] 44100 6 1 =
       Returned \<lparr>data = [], width = Num 0, height = Num 3, sampleRate = 44100\<rparr>"
    unfolding generateSpectrogramData_def Let_def
    by (simp add: trunc_def processColumns_done)
  have sub: "subarray [0, 0, 0 :: real] 0 4 = [0, 0, 0]" by (simp add: subarray_def)
  have pc: "processColumns fp [0, 0, 0] 4 (- 1) 1 0 [0, 0] = [0, 0]"
    by (simp add: processColumns.simps[of _ _ _ _ _ 0] sub)
  show "generateSpectrogramData fp [0, 0, 0] 44100 4 (- 1) =
       Returned \<lparr>data = [0, 0], width = Num 1, height = Num 2, sampleRate = 44100\<rparr>"
    unfolding generateSpectrogramData_def Let_def
    using pc by (simp add: trunc_def numeral_eq_Suc[of "num.Bit0 num.One"])
  show "generateSpectrogramData fp [0, 0, 0, 0] 44100 4 0 =
       Returned \<lparr>data = [], width = NaN, height = Num 2, sampleRate = 44100\<rparr>"
    unfolding generateSpectrogramData_def Let_def
    by (simp add: processColumns_done)
qed

text \<open>
  Claim C2, amended.  The analysis has no check of its configuration and no
  \<open>InvalidConfig\<close> error: the one error it can fail with is the \<open>RangeError\<close> of the
  output allocation, and whether \<open>fftSize\<close> is a power of two plays no part.  For
  \<open>fftSize\<close> from 2 on and \<open>N\<close> samples the call fails with that \<open>RangeError\<close> when
  \<open>hopSize > 0\<close> and \<open>N < fftSize\<close>, when \<open>hopSize < 0\<close> and \<open>N > fftSize\<close>, and when
  \<open>hopSize = 0\<close> and \<open>N\<close> is not \<open>fftSize\<close>.  In the other cases it returns a magnitude
  field: of width \<open>floor((N - fftSize) / hopSize)\<close> and height \<open>fftSize / 2\<close> when
  \<open>hopSize\<close> is not 0 and the output length is below \<open>2^53\<close>, and the empty field of
  width \<open>NaN\<close> when \<open>hopSize = 0\<close> and \<open>N = fftSize\<close>.
\<close>

theorem generateSpectrogramData_failure:
  assumes "2 \<le> fftSize"
  shows "(\<forall>e. generateSpectrogramData fp channelData sr fftSize hopSize = Thrown e \<longrightarrow> e = RangeError)
       \<and> (0 < hopSize \<and> length channelData < fftSize \<longrightarrow>
            generateSpectrogramData fp channelData sr fftSize hopSize = Thrown RangeError)
       \<and> (hopSize < 0 \<and> fftSize < length channelData \<longrightarrow>
            generateSpectrogramData fp channelData sr fftSize hopSize = Thrown RangeError)
       \<and> (hopSize = 0 \<and> length channelData \<noteq> fftSize \<longrightarrow>
            generateSpectrogramData fp channelData sr fftSize hopSize = Thrown RangeError)
       \<and> ((0 < hopSize \<and> fftSize \<le> length channelData
             \<or> hopSize < 0 \<and> length channelData \<le> fftSize) \<and>
            of_int \<lfloor>(real (length channelData) - real fftSize) / real_of_int hopSize\<rfloor>
              * (real fftSize / 2) < 2 ^ 53 \<longrightarrow>
            (\<exists>f. generateSpectrogramData fp channelData sr fftSize hopSize = Returned f
               \<and> width f = Num (of_int \<lfloor>(real (length channelData) - real fftSize) / real_of_int hopSize\<rfloor>)
               \<and> height f = Num (real fftSize / 2)))
       \<and> (hopSize = 0 \<and> length channelData = fftSize \<longrightarrow>
            generateSpectrogramData fp channelData sr fftSize hopSize =
              Returned \<lparr>data = [], width = NaN, height = Num (real fftSize / 2), sampleRate = sr\<rparr>)"
proof (intro conjI allI impI)
  fix e assume "generateSpectrogramData fp channelData sr fftSize hopSize = Thrown e"
  then show "e = RangeError" by (rule generateSpectrogramData_only_RangeError)
next
  assume a: "0 < hopSize \<and> length channelData < fftSize"
  then have "(real (length channelData) - real fftSize) / real_of_int hopSize < 0"
    by (simp add: divide_neg_pos)
  with a show "generateSpectrogramData fp channelData sr fftSize hopSize = Thrown RangeError"
    by (intro generateSpectrogramData_throws_neg assms) simp_all
next
  assume a: "hopSize < 0 \<and> fftSize < length channelData"
  then have "(real (length channelData) - real fftSize) / real_of_int hopSize < 0"
    by (simp add: divide_pos_neg)
  with a show "generateSpectrogramData fp channelData sr fftSize hopSize = Thrown RangeError"
    by (intro generateSpectrogramData_throws_neg assms) simp_all
next
  assume "hopSize = 0 \<and> length channelData \<noteq> fftSize"
  then show "generateSpectrogramData fp channelData sr fftSize hopSize = Thrown RangeError"
    using generateSpectrogramData_hop_0_throws[OF assms] by simp
next
  assume a: "(0 < hopSize \<and> fftSize \<le> length channelData
             \<or> hopSize < 0 \<and> length channelData \<le> fftSize) \<and>
            of_int \<lfloor>(real (length channelData) - real fftSize) / real_of_int hopSize\<rfloor>
              * (real fftSize / 2) < 2 ^ 53"
  then have hop: "hopSize \<noteq> 0" by auto
  from a have "0 \<le> (real (length channelData) - real fftSize) / real_of_int hopSize"
    by (auto simp: divide_nonpos_neg)
  from generateSpectrogramData_returns_nonneg[OF hop this] a
  obtain f where f: "generateSpectrogramData fp channelData sr fftSize hopSize = Returned f"
    by blast
  from generateSpectrogramData_dims[OF f hop] f
  show "\<exists>f. generateSpectrogramData fp channelData sr fftSize hopSize = Returned f
               \<and> width f = Num (of_int \<lfloor>(real (length channelData) - real fftSize) / real_of_int hopSize\<rfloor>)
               \<and> height f = Num (real fftSize / 2)" by blast
next
  assume "hopSize = 0 \<and> length channelData = fftSize"
  then show "generateSpectrogramData fp channelData sr fftSize hopSize =
              Returned \<lparr>data = [], width = NaN, height = Num (real fftSize / 2), sampleRate = sr\<rparr>"
    using generateSpectrogramData_hop_0_returns by simp
qed

theorem generateSpectrogramData_failure_witness:
  "\<forall>fp. generateSpectrogramData fp [0, 0, 0] 44100 6 1 = Thrown RangeError
   \<and> generateSpectrogramData fp [0, 0, 0, 0, 0] 44100 4 (- 1) = Thrown RangeError
   \<and> generateSpectrogramData fp [0, 0, 0] 44100 4 0 = Thrown RangeError
   \<and> (\<exists>f. generateSpectrogramData fp [0, 0, 0, 0, 0, 0, 0] 44100 6 1 = Returned f
          \<and> width f = Num 1 \<and> height f = Num 3)
   \<and> (\<exists>f. generateSpectrogramData fp [0, 0, 0] 44100 4 (- 1) = Returned f
          \<and> width f = Num 1 \<and> height f = Num 2)
   \<and> generateSpectrogramData fp [0, 0, 0, 0] 44100 4 0 =
       Returned \<lparr>data = [], width = NaN, height = Num 2, sampleRate = 44100\<rparr>"
proof (intro allI conjI)
  fix fp :: fpenv
  show "generateSpectrogramData fp [0, 0, 0] 44100 6 1 = Thrown RangeError"
    using generateSpectrogramData_failure[where fftSize = 6 and fp = fp and channelData = "[0, 0, 0]" and hopSize = 1]
    by simp
  show "generateSpectrogramData fp [0, 0, 0, 0, 0] 44100 4 (- 1) = Thrown RangeError"
    using generateSpectrogramData_failure[where fftSize = 4 and fp = fp and channelData = "[0, 0, 0, 0, 0]" and hopSize = "- 1"]
    by simp
  show "generateSpectrogramData fp [0, 0, 0] 44100 4 0 = Thrown RangeError"
    using generateSpectrogramData_failure[where fftSize = 4 and fp = fp and channelData = "[0, 0, 0]" and hopSize = 0]
    by simp
  show "\<exists>f. generateSpectrogramData fp [0, 0, 0, 0, 0, 0, 0] 44100 6 1 = Returned f
          \<and> width f = Num 1 \<and> height f = Num 3"
    using generateSpectrogramData_failure[where fftSize = 6 and fp = fp and channelData = "[0, 0, 0, 0, 0, 0, 0]" and hopSize = 1 and sr = 44100]
    by simp
  show "\<exists>f. generateSpectrogramData fp [0, 0, 0] 44100 4 (- 1) = Returned f
          \<and> width f = Num 1 \<and> height f = Num 2"
    using generateSpectrogramData_failure[where fftSize = 4 and fp = fp and channelData = "[0, 0, 0]" and hopSize = "- 1" and sr = 44100]
    by simp
  show "generateSpectrogramData fp [0, 0, 0, 0] 44100 4 0 =
       Returned \<lparr>data = [], width = NaN, height = Num 2, sampleRate = 44100\<rparr>"
    using generateSpectrogramData_failure[where fftSize = 4 and fp = fp and channelData = "[0, 0, 0, 0]" and hopSize = 0 and sr = 44100]
    by simp
qed

section \<open>Properties of the analysis: the cells of the field\<close>


lemma arrayGet_nat:
  "n < length a \<Longrightarrow> arrayGet a (Num (real n)) = a ! n"
  by (simp add: arrayGet_def)






lemma binIntensity_formula:
  "ToUint8 (binIntensity exactFp (Num x) (Num y)) =
     nat \<lfloor>max 0 (min 255 ((20 * log 10 (sqrt (x * x + y * y) + 0.000001) + 60) * 4))\<rfloor>"
proof -
  define v where "v = (20 * log 10 (sqrt (x * x + y * y) + 0.000001) + 60) * 4"
  define c where "c = max 0 (min 255 v)"
  have "0 \<le> sqrt (x * x + y * y)" by simp
  then have pos: "0 < sqrt (x * x + y * y) + 0.000001" by (simp add: add_nonneg_pos)
  have "binIntensity exactFp (Num x) (Num y) = Num c"
    using pos unfolding binIntensity_def Let_def c_def v_def
    by (simp add: Math_log10_def max_def min_def)
  moreover have "ToUint8 (Num c) = nat \<lfloor>c\<rfloor>"
  proof -
    have c: "0 \<le> c" "c \<le> 255" by (simp_all add: c_def)
    then have "0 \<le> \<lfloor>c\<rfloor>" "\<lfloor>c\<rfloor> \<le> 255" by (simp_all add: floor_le_iff le_floor_iff)
    then have "\<lfloor>c\<rfloor> mod 256 = \<lfloor>c\<rfloor>" by simp
    with c(1) show ?thesis by (simp add: trunc_def)
  qed
  ultimately show ?thesis by (simp add: c_def v_def)
qed









end
